theory Spec2Isabelle
  imports Main "HOL-Library.AList"
begin

section \<open>JavaScript and SQL built-ins\<close>

text \<open>
  A JavaScript \<open>number\<close> is a double.  The numbers this code computes with are
  timestamps and delays in seconds: a whole number, or \<open>NaN\<close>, which \<open>parseInt\<close>
  returns for a text that starts with no digit.  Fractions and infinities are left out.
\<close>

datatype js_number = NaN | Whole int

text \<open>
  The code converts identifiers between strings and \<open>bigint\<close> with \<open>BigInt(s)\<close>, which
  raises a \<open>SyntaxError\<close> on a string that is no integer literal, and
  \<open>n.toString()\<close>; it reads the delay setting with \<open>parseInt\<close> and orders rows by
  SQLite's \<open>CAST(id AS INTEGER)\<close>.  The model takes these functions as the fields of a
  record, so that what is proved holds whatever they compute: \<open>BigInt\<close> returns \<open>None\<close>
  where the built-in raises.  \<open>round_double\<close> is the rounding of a whole number to the
  nearest double, which \<open>+\<close> applies to a sum too large to be exact.
\<close>

record builtins =
  BigInt :: "string \<Rightarrow> int option"
  bigint_toString :: "int \<Rightarrow> string"
  parseInt :: "string \<Rightarrow> js_number"
  cast_integer :: "string \<Rightarrow> int"
  round_double :: "int \<Rightarrow> int"

text \<open>\<open>a + b\<close> for a timestamp \<open>a\<close> and a number \<open>b\<close>.  Every whole number of
  magnitude up to \<open>2 ^ 53\<close> is a double, so a sum in that range is exact; a larger one
  is rounded.  \<open>NaN\<close> is absorbing.\<close>

definition plus_whole :: "builtins \<Rightarrow> int \<Rightarrow> int \<Rightarrow> int" where
  "plus_whole js a d = (if \<bar>a + d\<bar> \<le> 2 ^ 53 then a + d else round_double js (a + d))"

definition js_plus :: "builtins \<Rightarrow> int \<Rightarrow> js_number \<Rightarrow> js_number" where
  "js_plus js a b =
     (case b of
        NaN \<Rightarrow> NaN
      | Whole d \<Rightarrow> Whole (plus_whole js a d))"

text \<open>What a \<open>catch\<close> block makes of the value it caught: the message
  (\<open>error.message\<close>, or \<open>String(error)\<close> for a value that is no \<open>Error\<close>) and the
  detail text (the JSON of the error's properties, empty for a primitive).\<close>

record thrown =
  thrown_message :: string
  thrown_details :: string

definition bigint_syntax_error :: "string \<Rightarrow> thrown" where
  "bigint_syntax_error s =
     \<lparr>thrown_message = ''Cannot convert '' @ s @ '' to a BigInt'', thrown_details = ''{}''\<rparr>"

section \<open>The local store\<close>

text \<open>
  The agent keeps everything in one SQLite file with five tables (\<open>ensureDB\<close> in
  \<open>db.ts\<close>).  A table is modelled as the list of its rows in insertion order, a row as a
  record with one field per column, and the \<open>AUTOINCREMENT\<close> counter of a table as a
  natural number stored beside it.  \<open>NULL\<close> in a nullable column is \<open>None\<close>.
  Every function of \<open>db.ts\<close> opens a connection, runs its statements inside
  \<open>try\<close>, and closes the connection; the model passes the store in and returns the
  store that results.  Wall-clock time (\<open>Math.floor(Date.now() / 1000)\<close>) is the
  argument \<open>now\<close>.  In this section the database opens and a statement succeeds
  unless a constraint of the schema refuses it.  Two error paths are modelled apart, each
  where the code's handling of it is what is asked: the statements of the transaction of
  \<open>resetAgentData\<close>, whose failure is an argument of the function, and the opening of
  the database by the log calls of \<open>analyzeProposal\<close>, in the section on the analysis
  pipeline.
\<close>

type_synonym proposal_id = string

text \<open>A ballot record of a proposal, and the two shapes the ballots of a stored payload
  take: an object keyed by neuron id, or an array of ballot records.\<close>

record ballot =
  neuronId :: "string option"
  vote :: int

datatype ballots =
    NoBallots
  | BallotMap "(string \<times> ballot) list"
  | BallotList "ballot list"

text \<open>The JSON payload of a proposal (column \<open>data\<close>): the fields the code reads or
  writes.\<close>

record payload =
  placeholder :: bool
  status :: int
  topic :: int
  proposalTimestampSeconds :: int
  deadlineTimestampSeconds :: "int option"
  title :: string
  summary :: string
  ballots :: ballots

record proposal_row =
  p_id :: proposal_id
  p_data :: payload
  p_processed :: bool

record scheduled_vote =
  sv_id :: nat
  sv_proposal_id :: proposal_id
  sv_vote_type :: string
  sv_scheduled_time :: int
  sv_executed :: bool
  sv_executed_time :: "int option"
  sv_error_message :: "string option"
  sv_error_details :: "string option"

record agent_vote =
  av_id :: nat
  av_proposal_id :: proposal_id
  av_vote_type :: string
  av_reasoning :: string
  av_created_at :: int
  av_scheduled :: bool

record agent_log =
  al_id :: nat
  al_proposal_id :: proposal_id
  al_request :: string
  al_response :: string
  al_created_at :: int

record db =
  config :: "(string \<times> string) list"
  proposals :: "proposal_row list"
  scheduled_votes :: "scheduled_vote list"
  scheduled_votes_seq :: nat
  agent_votes :: "agent_vote list"
  agent_votes_seq :: nat
  agent_logs :: "agent_log list"
  agent_logs_seq :: nat

subsection \<open>Config\<close>

definition getConfigValue :: "string \<Rightarrow> db \<Rightarrow> string option" where
  "getConfigValue key st = map_of (config st) key"

text \<open>\<open>INSERT ... ON CONFLICT(key) DO UPDATE SET value = excluded.value\<close>.\<close>

definition setConfigValue :: "string \<Rightarrow> string \<Rightarrow> db \<Rightarrow> db" where
  "setConfigValue key v st = st\<lparr>config := AList.update key v (config st)\<rparr>"

text \<open>JavaScript truthiness of a \<open>string | undefined\<close>: \<open>undefined\<close> and the empty
  string are falsy.\<close>

fun truthy :: "string option \<Rightarrow> bool" where
  "truthy None = False"
| "truthy (Some s) = (s \<noteq> [])"

subsection \<open>Proposals\<close>

definition proposalExists :: "proposal_id \<Rightarrow> db \<Rightarrow> bool" where
  "proposalExists pid st = (0 < length (filter (\<lambda>r. p_id r = pid) (proposals st)))"

definition getProposal :: "proposal_id \<Rightarrow> db \<Rightarrow> payload option" where
  "getProposal pid st = map_option p_data (find (\<lambda>r. p_id r = pid) (proposals st))"

text \<open>\<open>INSERT INTO proposals (id, data) ... ON CONFLICT(id) DO UPDATE SET data =
  excluded.data\<close>: an existing row keeps its \<open>processed\<close> flag and its place, a new row
  is appended with \<open>processed = 0\<close>.\<close>

definition upsert_proposal :: "proposal_id \<Rightarrow> payload \<Rightarrow> proposal_row list \<Rightarrow> proposal_row list" where
  "upsert_proposal pid d rows =
     (if \<exists>r \<in> set rows. p_id r = pid
      then map (\<lambda>r. if p_id r = pid then r\<lparr>p_data := d\<rparr> else r) rows
      else rows @ [\<lparr>p_id = pid, p_data = d, p_processed = False\<rparr>])"

definition storeProposal :: "proposal_id \<Rightarrow> payload \<Rightarrow> db \<Rightarrow> db" where
  "storeProposal pid d st = st\<lparr>proposals := upsert_proposal pid d (proposals st)\<rparr>"

definition placeholderData :: "int \<Rightarrow> proposal_id \<Rightarrow> payload" where
  "placeholderData now pid =
     \<lparr>placeholder = True,
      status = 0,
      topic = 0,
      proposalTimestampSeconds = now,
      deadlineTimestampSeconds = None,
      title = ''Proposal '' @ pid @ '' (Placeholder)'',
      summary = ''This is a placeholder entry for a proposal that was referenced but couldn't be fetched from the IC.'',
      ballots = NoBallots\<rparr>"

definition ensureProposalExists :: "int \<Rightarrow> proposal_id \<Rightarrow> db \<Rightarrow> bool \<times> db" where
  "ensureProposalExists now pid st =
     (if proposalExists pid st then (True, st)
      else (True, st\<lparr>proposals := upsert_proposal pid (placeholderData now pid) (proposals st)\<rparr>))"

subsection \<open>Scheduled votes\<close>

text \<open>The table is declared with \<open>scheduled_time INTEGER NOT NULL\<close> and
  \<open>UNIQUE(proposal_id)\<close>.  SQLite binds \<open>NaN\<close> as \<open>NULL\<close>, so an insert with the
  time \<open>NaN\<close> fails; so does an insert for a proposal that still has a row, whatever
  the row's \<open>executed\<close> flag.  The failure is \<open>None\<close>.\<close>

definition insert_scheduled_vote ::
  "proposal_id \<Rightarrow> string \<Rightarrow> js_number \<Rightarrow> db \<Rightarrow> (nat \<times> db) option" where
  "insert_scheduled_vote pid voteType scheduledTime st =
     (case scheduledTime of
        NaN \<Rightarrow> None
      | Whole t \<Rightarrow>
          if \<exists>r \<in> set (scheduled_votes st). sv_proposal_id r = pid then None
          else
            let rowid = Suc (scheduled_votes_seq st) in
            Some (rowid,
              st\<lparr>scheduled_votes := scheduled_votes st @
                   [\<lparr>sv_id = rowid, sv_proposal_id = pid, sv_vote_type = voteType,
                     sv_scheduled_time = t, sv_executed = False,
                     sv_executed_time = None, sv_error_message = None,
                     sv_error_details = None\<rparr>],
                 scheduled_votes_seq := rowid\<rparr>))"

definition delete_scheduled_votes :: "proposal_id \<Rightarrow> db \<Rightarrow> db" where
  "delete_scheduled_votes pid st =
     st\<lparr>scheduled_votes := filter (\<lambda>r. sv_proposal_id r \<noteq> pid) (scheduled_votes st)\<rparr>"

text \<open>\<open>scheduleVote\<close> computes the time, deletes the proposal's rows and inserts the
  new one, the three inside one \<open>try\<close> and without a transaction.  It returns
  \<open>db.lastInsertRowId\<close>, or 0 from its \<open>catch\<close>, which undoes nothing.\<close>

definition scheduleVote ::
  "builtins \<Rightarrow> int \<Rightarrow> proposal_id \<Rightarrow> string \<Rightarrow> js_number \<Rightarrow> db \<Rightarrow> nat \<times> db" where
  "scheduleVote js now proposalId voteType delaySeconds st =
     (let st1 = snd (ensureProposalExists now proposalId st);
          scheduledTime = js_plus js now delaySeconds;
          st2 = delete_scheduled_votes proposalId st1
      in case insert_scheduled_vote proposalId voteType scheduledTime st2 of
           None \<Rightarrow> (0, st2)
         | Some (rowid, st3) \<Rightarrow> (rowid, st3))"

text \<open>The active scheduled vote of a proposal, as \<open>getScheduledVote\<close> selects it
  (\<open>WHERE proposal_id = ? AND executed = 0\<close>).\<close>

definition active_votes :: "proposal_id \<Rightarrow> db \<Rightarrow> scheduled_vote list" where
  "active_votes pid st =
     filter (\<lambda>r. sv_proposal_id r = pid \<and> \<not> sv_executed r) (scheduled_votes st)"

definition getScheduledVote :: "int \<Rightarrow> proposal_id \<Rightarrow> db \<Rightarrow> scheduled_vote option \<times> db" where
  "getScheduledVote now pid st =
     (let st1 = snd (ensureProposalExists now pid st)
      in (case active_votes pid st1 of [] \<Rightarrow> None | r # _ \<Rightarrow> Some r, st1))"

definition cancelScheduledVote :: "proposal_id \<Rightarrow> db \<Rightarrow> bool \<times> db" where
  "cancelScheduledVote pid st = (True, delete_scheduled_votes pid st)"

definition getPendingVotes :: "int \<Rightarrow> db \<Rightarrow> scheduled_vote list" where
  "getPendingVotes now st =
     filter (\<lambda>r. sv_scheduled_time r \<le> now \<and> \<not> sv_executed r) (scheduled_votes st)"

definition markVoteExecuted :: "int \<Rightarrow> nat \<Rightarrow> db \<Rightarrow> db" where
  "markVoteExecuted now rowid st =
     st\<lparr>scheduled_votes :=
          map (\<lambda>r. if sv_id r = rowid
                   then r\<lparr>sv_executed := True, sv_executed_time := Some now\<rparr> else r)
              (scheduled_votes st)\<rparr>"

text \<open>\<open>errorDetails || null\<close>: an absent or empty detail string is stored as \<open>NULL\<close>.\<close>

definition recordVoteError :: "int \<Rightarrow> nat \<Rightarrow> string \<Rightarrow> string option \<Rightarrow> db \<Rightarrow> db" where
  "recordVoteError now rowid errorMessage errorDetails st =
     st\<lparr>scheduled_votes :=
          map (\<lambda>r. if sv_id r = rowid
                   then r\<lparr>sv_executed := True, sv_executed_time := Some now,
                          sv_error_message := Some errorMessage,
                          sv_error_details := (if truthy errorDetails then errorDetails else None)\<rparr>
                   else r)
              (scheduled_votes st)\<rparr>"

subsection \<open>Agent votes and agent logs\<close>

text \<open>\<open>storeAgentVote\<close> deletes the proposal's agent vote and inserts the new one; the
  table has \<open>UNIQUE(proposal_id)\<close>, which the delete makes sure of.  It returns
  \<open>db.lastInsertRowId\<close>.\<close>

definition storeAgentVote :: "int \<Rightarrow> proposal_id \<Rightarrow> string \<Rightarrow> string \<Rightarrow> db \<Rightarrow> nat \<times> db" where
  "storeAgentVote now pid voteType reasoning st =
     (let rowid = Suc (agent_votes_seq st) in
      (rowid,
       st\<lparr>agent_votes := filter (\<lambda>r. av_proposal_id r \<noteq> pid) (agent_votes st) @
            [\<lparr>av_id = rowid, av_proposal_id = pid, av_vote_type = voteType,
              av_reasoning = reasoning, av_created_at = now, av_scheduled = False\<rparr>],
          agent_votes_seq := rowid\<rparr>))"

definition markAgentVoteScheduled :: "proposal_id \<Rightarrow> db \<Rightarrow> bool \<times> db" where
  "markAgentVoteScheduled pid st =
     (True, st\<lparr>agent_votes :=
               map (\<lambda>r. if av_proposal_id r = pid then r\<lparr>av_scheduled := True\<rparr> else r)
                   (agent_votes st)\<rparr>)"

text \<open>\<open>logAgentCommunication\<close> on a database that opens: the row is appended and its
  id returned.  The function opens the database before its \<open>try\<close>; the call on a
  database that does not open is \<open>try_log\<close>, with \<open>analyzeProposal\<close>.\<close>

definition logAgentCommunication :: "int \<Rightarrow> proposal_id \<Rightarrow> string \<Rightarrow> string \<Rightarrow> db \<Rightarrow> nat \<times> db" where
  "logAgentCommunication now pid request response st =
     (let rowid = Suc (agent_logs_seq st) in
      (rowid,
       st\<lparr>agent_logs := agent_logs st @
            [\<lparr>al_id = rowid, al_proposal_id = pid, al_request = request,
              al_response = response, al_created_at = now\<rparr>],
          agent_logs_seq := rowid\<rparr>))"

definition getAgentVote :: "proposal_id \<Rightarrow> db \<Rightarrow> agent_vote option" where
  "getAgentVote pid st = find (\<lambda>r. av_proposal_id r = pid) (agent_votes st)"

definition getAgentLogs :: "proposal_id \<Rightarrow> db \<Rightarrow> agent_log list" where
  "getAgentLogs pid st = filter (\<lambda>r. al_proposal_id r = pid) (agent_logs st)"

subsection \<open>Resetting the analysis of a proposal\<close>

text \<open>
  \<open>resetAgentData\<close> runs four statements inside \<open>try\<close>: \<open>BEGIN TRANSACTION\<close>, the
  two deletes, \<open>COMMIT\<close>.  Its \<open>catch\<close> runs \<open>ROLLBACK\<close>, outside any \<open>try\<close> of
  its own, and then returns \<open>false\<close>.

  A connection is the store as the statements see it, and the snapshot that \<open>BEGIN\<close>
  took, if a transaction is open.  The argument \<open>failure\<close> names the statement that
  raises, if any.  A statement that raises changes nothing by itself.  For some errors
  (a full disk, an I/O error, no memory) SQLite ends the transaction on its own and
  restores the snapshot; the flag of a failure says whether it is of this kind.
  \<open>ROLLBACK\<close> with no transaction open raises (\<open>cannot rollback - no transaction is
  active\<close>), and the exception leaves \<open>resetAgentData\<close> (\<open>Inl\<close>).
\<close>

datatype reset_failure =
    NoFailure
  | BeginFails
  | DeleteVotesFails bool
  | DeleteLogsFails bool
  | CommitFails bool

record connection =
  current :: db
  snapshot :: "db option"

definition connect :: "db \<Rightarrow> connection" where
  "connect st = \<lparr>current = st, snapshot = None\<rparr>"

definition begin_transaction :: "connection \<Rightarrow> connection" where
  "begin_transaction c = c\<lparr>snapshot := Some (current c)\<rparr>"

definition end_transaction :: "connection \<Rightarrow> connection" where
  "end_transaction c =
     (case snapshot c of
        None \<Rightarrow> c
      | Some s \<Rightarrow> \<lparr>current = s, snapshot = None\<rparr>)"

definition statement_fails :: "bool \<Rightarrow> connection \<Rightarrow> connection" where
  "statement_fails ended c = (if ended then end_transaction c else c)"

definition no_transaction :: string where
  "no_transaction = ''cannot rollback - no transaction is active''"

definition rollback :: "connection \<Rightarrow> string + connection" where
  "rollback c =
     (case snapshot c of
        None \<Rightarrow> Inl no_transaction
      | Some s \<Rightarrow> Inr \<lparr>current = s, snapshot = None\<rparr>)"

definition delete_agent_votes :: "proposal_id \<Rightarrow> connection \<Rightarrow> connection" where
  "delete_agent_votes pid c =
     c\<lparr>current := (current c)\<lparr>agent_votes :=
          filter (\<lambda>r. av_proposal_id r \<noteq> pid) (agent_votes (current c))\<rparr>\<rparr>"

definition delete_agent_logs :: "proposal_id \<Rightarrow> connection \<Rightarrow> connection" where
  "delete_agent_logs pid c =
     c\<lparr>current := (current c)\<lparr>agent_logs :=
          filter (\<lambda>r. al_proposal_id r \<noteq> pid) (agent_logs (current c))\<rparr>\<rparr>"

text \<open>The \<open>catch\<close> block: \<open>ROLLBACK\<close>, then \<open>return false\<close>.\<close>

definition reset_catch :: "connection \<Rightarrow> (string + bool) \<times> db" where
  "reset_catch c =
     (case rollback c of
        Inl e \<Rightarrow> (Inl e, current c)
      | Inr c' \<Rightarrow> (Inr False, current c'))"

definition resetAgentData :: "reset_failure \<Rightarrow> proposal_id \<Rightarrow> db \<Rightarrow> (string + bool) \<times> db" where
  "resetAgentData failure pid st =
     (let c = connect st in
      if failure = BeginFails then reset_catch c
      else
        let c0 = begin_transaction c in
        case failure of
          DeleteVotesFails ended \<Rightarrow> reset_catch (statement_fails ended c0)
        | _ \<Rightarrow>
            let c1 = delete_agent_votes pid c0 in
            case failure of
              DeleteLogsFails ended \<Rightarrow> reset_catch (statement_fails ended c1)
            | _ \<Rightarrow>
                let c2 = delete_agent_logs pid c1 in
                case failure of
                  CommitFails ended \<Rightarrow> reset_catch (statement_fails ended c2)
                | _ \<Rightarrow> (Inr True, current c2))"

text \<open>The endpoint \<open>POST /api/proposals/:id/reset-agent-analysis\<close> of \<open>web.ts\<close>: 404
  for an unknown proposal, otherwise \<open>resetAgentData\<close>, whose result is not looked at,
  then \<open>cancelScheduledVote\<close> and the answer 200.  An exception that leaves
  \<open>resetAgentData\<close> goes to the \<open>catch\<close> of the endpoint, which answers 500.  The
  result is the HTTP status.\<close>

definition reset_agent_analysis :: "reset_failure \<Rightarrow> proposal_id \<Rightarrow> db \<Rightarrow> nat \<times> db" where
  "reset_agent_analysis failure pid st =
     (if \<not> proposalExists pid st then (404, st)
      else
        case resetAgentData failure pid st of
          (Inl e, st1) \<Rightarrow> (500, st1)
        | (Inr done, st1) \<Rightarrow> (200, snd (cancelScheduledVote pid st1)))"

section \<open>The sync cutoff\<close>

definition getMinimumProposalId :: "db \<Rightarrow> string option" where
  "getMinimumProposalId st = getConfigValue ''minimum_proposal_id'' st"

text \<open>\<open>if (!currentMin || BigInt(proposalId) < BigInt(currentMin))\<close>: with a cutoff
  present both conversions run, and either may raise; the exception leaves the function
  (\<open>Inl\<close>) before anything is written.\<close>

definition updateMinimumProposalId :: "builtins \<Rightarrow> string \<Rightarrow> db \<Rightarrow> thrown + db" where
  "updateMinimumProposalId js proposalId st =
     (case getMinimumProposalId st of
        None \<Rightarrow> Inr (setConfigValue ''minimum_proposal_id'' proposalId st)
      | Some currentMin \<Rightarrow>
          if currentMin = [] then Inr (setConfigValue ''minimum_proposal_id'' proposalId st)
          else
            (case BigInt js proposalId of
               None \<Rightarrow> Inl (bigint_syntax_error proposalId)
             | Some n \<Rightarrow>
                 (case BigInt js currentMin of
                    None \<Rightarrow> Inl (bigint_syntax_error currentMin)
                  | Some c \<Rightarrow>
                      if n < c then Inr (setConfigValue ''minimum_proposal_id'' proposalId st)
                      else Inr st)))"

section \<open>The sync engine\<close>

text \<open>
  \<open>retrieveAndStoreProposals\<close> pages backward through the network's proposals.  A
  proposal of the network has an optional \<open>bigint\<close> id and its payload; \<open>!proposal.id\<close>
  holds for a missing id and for \<open>0n\<close>.  The network is a function from the number of
  the request and its \<open>beforeProposal\<close> cursor to the page it answers, or to an
  exception.  The identifier of a stored proposal is the decimal text of its id, so
  \<open>BigInt(proposalId)\<close> on it is the id itself.
\<close>

record net_proposal =
  np_id :: "int option"
  np_info :: payload

datatype page = ListThrows | Page "net_proposal list"

fun id_truthy :: "int option \<Rightarrow> bool" where
  "id_truthy None = False"
| "id_truthy (Some n) = (n \<noteq> 0)"

text \<open>The \<open>for\<close> loop over one page.  It ends by running out of proposals, by the
  \<open>break\<close> at the cutoff (\<open>reachedExistingMinimum\<close>), or by the exception of
  \<open>BigInt(minProposalId)\<close>, which the function's outer \<open>catch\<close> receives.\<close>

datatype batch_result =
    BatchThrew db
  | BatchDone "int option" bool bool db

fun process_batch ::
  "builtins \<Rightarrow> string option \<Rightarrow> net_proposal list \<Rightarrow> int option \<Rightarrow> bool \<Rightarrow> db \<Rightarrow> batch_result" where
  "process_batch js minProposalId [] batchMinId allExist st = BatchDone batchMinId allExist False st"
| "process_batch js minProposalId (proposal # rest) batchMinId allExist st =
     (case np_id proposal of
        None \<Rightarrow> process_batch js minProposalId rest batchMinId allExist st
      | Some n \<Rightarrow>
          if n = 0 then process_batch js minProposalId rest batchMinId allExist st
          else if truthy minProposalId \<and> BigInt js (the minProposalId) = None then BatchThrew st
          else if truthy minProposalId \<and> n \<le> the (BigInt js (the minProposalId))
          then BatchDone batchMinId allExist True st
          else
            let batchMinId' = (case batchMinId of None \<Rightarrow> Some n
                               | Some m \<Rightarrow> if n < m then Some n else Some m);
                proposalId = bigint_toString js n;
                exists = proposalExists proposalId st;
                st' = storeProposal proposalId (np_info proposal) st
            in process_batch js minProposalId rest batchMinId' (allExist \<and> exists) st')"

text \<open>The \<open>while (continueFetching)\<close> loop; \<open>batchCount\<close> is the number of requests
  made so far, and the loop stops at the hundredth.\<close>

function fetch_batches ::
  "builtins \<Rightarrow> (nat \<Rightarrow> int option \<Rightarrow> page) \<Rightarrow> string option \<Rightarrow> int option \<Rightarrow> nat \<Rightarrow> db \<Rightarrow> db" where
  "fetch_batches js listProposals minProposalId beforeProposal batchCount st =
     (case listProposals (Suc batchCount) beforeProposal of
        ListThrows \<Rightarrow> st
      | Page batch \<Rightarrow>
          if batch = [] then st
          else
            (case process_batch js minProposalId batch None True st of
               BatchThrew st1 \<Rightarrow> st1
             | BatchDone batchMinId allExist reachedExistingMinimum st1 \<Rightarrow>
                 if reachedExistingMinimum then st1
                 else
                   (case (if batchMinId \<noteq> None \<and> \<not> truthy minProposalId \<and> Suc batchCount = 1
                          then updateMinimumProposalId js (bigint_toString js (the batchMinId)) st1
                          else Inr st1) of
                      Inl e \<Rightarrow> st1
                    | Inr st2 \<Rightarrow>
                        if \<not> allExist \<and> id_truthy (np_id (last batch)) \<and> Suc batchCount < 100
                        then fetch_batches js listProposals minProposalId
                               (np_id (last batch)) (Suc batchCount) st2
                        else st2)))"
  by pat_completeness auto
termination
  by (relation "measure (\<lambda>(js, listProposals, minProposalId, beforeProposal, batchCount, st). 100 - batchCount)")
     auto

declare fetch_batches.simps [simp del]

definition retrieveAndStoreProposals ::
  "builtins \<Rightarrow> (nat \<Rightarrow> int option \<Rightarrow> page) \<Rightarrow> db \<Rightarrow> db" where
  "retrieveAndStoreProposals js listProposals st =
     fetch_batches js listProposals (getMinimumProposalId st) None 0 st"

text \<open>A history of the cutoff: sync runs and direct calls of
  \<open>updateMinimumProposalId\<close>, in any order.  A call that raises leaves the store as it
  was.\<close>

datatype cutoff_op =
    SyncRun "nat \<Rightarrow> int option \<Rightarrow> page"
  | UpdateMinimum string

fun apply_cutoff_op :: "builtins \<Rightarrow> cutoff_op \<Rightarrow> db \<Rightarrow> db" where
  "apply_cutoff_op js (SyncRun listProposals) st = retrieveAndStoreProposals js listProposals st"
| "apply_cutoff_op js (UpdateMinimum proposalId) st =
     (case updateMinimumProposalId js proposalId st of Inl e \<Rightarrow> st | Inr st' \<Rightarrow> st')"

fun apply_cutoff_ops :: "builtins \<Rightarrow> cutoff_op list \<Rightarrow> db \<Rightarrow> db" where
  "apply_cutoff_ops js [] st = st"
| "apply_cutoff_ops js (x # xs) st = apply_cutoff_ops js xs (apply_cutoff_op js x st)"

text \<open>The cutoff as a number, when one is set: the stored text is truthy and
  \<open>BigInt\<close> reads it.\<close>

definition cutoff_value :: "builtins \<Rightarrow> db \<Rightarrow> int option" where
  "cutoff_value js st =
     (case getMinimumProposalId st of
        None \<Rightarrow> None
      | Some s \<Rightarrow> if s = [] then None else BigInt js s)"

section \<open>Executing the scheduled votes that are due\<close>

text \<open>
  \<open>processScheduledVotes\<close> of \<open>web.ts\<close> talks to the governance canister.  The canister
  is a record of three functions: the neurons of the identity (\<open>None\<close> when the call
  raises), the outcome of \<open>registerVote\<close> for a neuron, a proposal and a vote (\<open>None\<close>
  when the vote is cast, the exception otherwise), and the answer of \<open>getProposal\<close>.
  The sweep asks for a proposal at most twice, once after the cast (attempt 0) and once
  in the error handler (attempt 1); the two answers may differ.  \<open>setupAgent\<close> maps the
  authentication key to the canister, or to \<open>None\<close> when building the identity or the
  agent raises.
\<close>

datatype fetch = FetchThrows thrown | FetchNone | Fetched payload

record governance =
  gov_listNeurons :: "int list option"
  gov_registerVote :: "int \<Rightarrow> int \<Rightarrow> nat \<Rightarrow> thrown option"
  gov_getProposal :: "nat \<Rightarrow> int \<Rightarrow> fetch"

text \<open>The refresh inside the \<open>catch\<close> of the loop body: store what the network returns,
  and fall back to the placeholder when it returns nothing or raises.\<close>

definition refresh_after_error :: "builtins \<Rightarrow> governance \<Rightarrow> int \<Rightarrow> proposal_id \<Rightarrow> db \<Rightarrow> db" where
  "refresh_after_error js gov now pid st =
     (case BigInt js pid of
        None \<Rightarrow> snd (ensureProposalExists now pid st)
      | Some n \<Rightarrow>
          (case gov_getProposal gov 1 n of
             Fetched p \<Rightarrow> storeProposal pid p st
           | FetchNone \<Rightarrow> snd (ensureProposalExists now pid st)
           | FetchThrows e \<Rightarrow> snd (ensureProposalExists now pid st)))"

definition vote_failed :: "builtins \<Rightarrow> governance \<Rightarrow> int \<Rightarrow> scheduled_vote \<Rightarrow> thrown \<Rightarrow> db \<Rightarrow> db" where
  "vote_failed js gov now v e st =
     refresh_after_error js gov now (sv_proposal_id v)
       (recordVoteError now (sv_id v) (thrown_message e) (Some (thrown_details e)) st)"

text \<open>One turn of the loop over the pending votes.  Everything from \<open>registerVote\<close> to
  the refresh stands in one \<open>try\<close>, so an exception of the refresh after a successful
  cast reaches the same \<open>catch\<close> as a failed cast.  The second component lists the ids of
  the scheduled votes for which \<open>registerVote\<close> was called.\<close>

definition execute_vote ::
  "builtins \<Rightarrow> governance \<Rightarrow> int \<Rightarrow> int \<Rightarrow> scheduled_vote \<Rightarrow> db \<times> nat list \<Rightarrow> db \<times> nat list" where
  "execute_vote js gov neuron now v acc =
     (let st1 = snd (ensureProposalExists now (sv_proposal_id v) (fst acc));
          casts = snd acc
      in case BigInt js (sv_proposal_id v) of
           None \<Rightarrow> (vote_failed js gov now v (bigint_syntax_error (sv_proposal_id v)) st1, casts)
         | Some n \<Rightarrow>
             (case gov_registerVote gov neuron n (if sv_vote_type v = ''yes'' then 1 else 2) of
                Some e \<Rightarrow> (vote_failed js gov now v e st1, casts @ [sv_id v])
              | None \<Rightarrow>
                  let st2 = markVoteExecuted now (sv_id v) st1 in
                  (case gov_getProposal gov 0 n of
                     FetchThrows e \<Rightarrow> (vote_failed js gov now v e st2, casts @ [sv_id v])
                   | FetchNone \<Rightarrow> (st2, casts @ [sv_id v])
                   | Fetched p \<Rightarrow> (storeProposal (sv_proposal_id v) p st2, casts @ [sv_id v]))))"

fun execute_votes ::
  "builtins \<Rightarrow> governance \<Rightarrow> int \<Rightarrow> int \<Rightarrow> scheduled_vote list \<Rightarrow> db \<times> nat list \<Rightarrow> db \<times> nat list" where
  "execute_votes js gov neuron now [] acc = acc"
| "execute_votes js gov neuron now (v # vs) acc =
     execute_votes js gov neuron now vs (execute_vote js gov neuron now v acc)"

definition processScheduledVotes ::
  "builtins \<Rightarrow> (string \<Rightarrow> governance option) \<Rightarrow> int \<Rightarrow> db \<Rightarrow> db \<times> nat list" where
  "processScheduledVotes js setupAgent now st =
     (let pendingVotes = getPendingVotes now st in
      if pendingVotes = [] then (st, [])
      else
        (case getConfigValue ''IC_AUTHENTICATION_KEY'' st of
           None \<Rightarrow> (st, [])
         | Some key \<Rightarrow>
             if key = [] then (st, [])
             else
               (case setupAgent key of
                  None \<Rightarrow> (st, [])
                | Some gov \<Rightarrow>
                    (case gov_listNeurons gov of
                       None \<Rightarrow> (st, [])
                     | Some [] \<Rightarrow> (st, [])
                     | Some (neuron # others) \<Rightarrow>
                         execute_votes js gov neuron now pendingVotes (st, [])))))"

text \<open>The identity is available: the key is configured, the agent is built and the
  identity has a neuron.\<close>

definition identity_available :: "(string \<Rightarrow> governance option) \<Rightarrow> db \<Rightarrow> governance \<Rightarrow> int \<Rightarrow> bool" where
  "identity_available setupAgent st gov neuron =
     (case getConfigValue ''IC_AUTHENTICATION_KEY'' st of
        None \<Rightarrow> False
      | Some key \<Rightarrow>
          key \<noteq> [] \<and> setupAgent key = Some gov \<and>
          (case gov_listNeurons gov of Some (n # others) \<Rightarrow> n = neuron | _ \<Rightarrow> False))"

text \<open>What the loop body does to the row of the vote it executes, read off the canister's
  answers.\<close>

datatype cast_outcome = CastSucceeded | CastFailed thrown | RefreshThrew thrown

definition cast_outcome_of :: "builtins \<Rightarrow> governance \<Rightarrow> int \<Rightarrow> scheduled_vote \<Rightarrow> cast_outcome" where
  "cast_outcome_of js gov neuron v =
     (case BigInt js (sv_proposal_id v) of
        None \<Rightarrow> CastFailed (bigint_syntax_error (sv_proposal_id v))
      | Some n \<Rightarrow>
          (case gov_registerVote gov neuron n (if sv_vote_type v = ''yes'' then 1 else 2) of
             Some e \<Rightarrow> CastFailed e
           | None \<Rightarrow>
               (case gov_getProposal gov 0 n of
                  FetchThrows e \<Rightarrow> RefreshThrew e
                | FetchNone \<Rightarrow> CastSucceeded
                | Fetched p \<Rightarrow> CastSucceeded)))"

section \<open>The analysis pipeline\<close>

text \<open>
  \<open>agent.ts\<close> keeps two module variables, the lock \<open>analysisInProgress\<close> and the
  client \<open>openaiClient\<close> (here: whether it is set).  \<open>analyzeProposal\<close> is an
  \<open>async\<close> function with one \<open>await\<close>, the call of the reasoning service.  JavaScript
  runs it without interruption up to the \<open>await\<close> and again from the response to the
  \<open>return\<close>; other code of the process can run in between.  The model has one function
  for each of the two parts.  The code assembles the prompt from the proposal and the
  \<open>USER_PROMPT\<close> setting inside the outer \<open>try\<close>; the argument \<open>prepared\<close> is
  \<open>Inr\<close> of the prompt text, or \<open>Inl\<close> of the message of the exception that
  assembling it raised.  \<open>analyze_start\<close> and \<open>analyze_finish\<close> have the database at
  hand for every log call; the subsection after them adds the exception of a log call.
\<close>

record agent =
  analysisInProgress :: bool
  openaiClient :: bool
  store :: db

record analysis =
  success :: bool
  voteType :: "string option"
  reasoning :: "string option"

text \<open>The \<open>vote_decision\<close> field of the parsed result: missing (\<open>undefined\<close> or
  \<open>null\<close>), a string, or a value of another type, on which \<open>toLowerCase\<close> is no
  function.\<close>

datatype vote_field = VoteMissing | VoteText string | VoteOther

record review =
  vote_decision :: vote_field
  review_reasoning :: "string option"

text \<open>The service raises (with the error's message), or answers; \<open>Responded t r\<close> has
  the text \<open>JSON.stringify(parsedResult, null, 2)\<close> and \<open>response.output_parsed\<close>,
  which is \<open>None\<close> when the output could not be parsed.\<close>

datatype model_response = ServiceThrows string | Responded string "review option"

definition toLowerCase :: "string \<Rightarrow> string" where
  "toLowerCase s =
     map (\<lambda>c. if 65 \<le> (of_char c :: nat) \<and> (of_char c :: nat) \<le> 90
              then char_of ((of_char c :: nat) + 32) else c) s"

definition initModel :: "agent \<Rightarrow> bool \<times> agent" where
  "initModel a =
     (if truthy (getConfigValue ''OPENAI_KEY'' (store a)) then (True, a\<lparr>openaiClient := True\<rparr>)
      else (False, a))"

text \<open>A log call on a database that opens.\<close>

definition log_to :: "int \<Rightarrow> proposal_id \<Rightarrow> string \<Rightarrow> string \<Rightarrow> agent \<Rightarrow> agent" where
  "log_to now pid request response a =
     a\<lparr>store := snd (logAgentCommunication now pid request response (store a))\<rparr>"

definition no_result :: analysis where
  "no_result = \<lparr>success = False, voteType = None, reasoning = None\<rparr>"

definition failed_with :: "string \<Rightarrow> analysis" where
  "failed_with why = \<lparr>success = False, voteType = None, reasoning = Some why\<rparr>"

text \<open>Up to the \<open>await\<close>: \<open>Some r\<close> when the function returns \<open>r\<close> without calling the
  service, \<open>None\<close> when the request is on its way.\<close>

definition analyze_start ::
  "int \<Rightarrow> string + string \<Rightarrow> proposal_id \<Rightarrow> agent \<Rightarrow> analysis option \<times> agent" where
  "analyze_start now prepared pid a =
     (if analysisInProgress a then (Some no_result, a)
      else
        let a1 = a\<lparr>analysisInProgress := True\<rparr>;
            r = (if \<not> openaiClient a1 then initModel a1 else (True, a1))
        in if \<not> fst r then (Some no_result, (snd r)\<lparr>analysisInProgress := False\<rparr>)
           else if \<not> openaiClient (snd r) then (Some no_result, (snd r)\<lparr>analysisInProgress := False\<rparr>)
           else
             (case prepared of
                Inl msg \<Rightarrow>
                  (Some (failed_with (''Error: '' @ msg)),
                   (log_to now pid ''Error during analysis'' msg (snd r))\<lparr>analysisInProgress := False\<rparr>)
              | Inr prompt \<Rightarrow> (None, log_to now pid ''OpenAI Input Prompt'' prompt (snd r))))"

text \<open>From the response to the \<open>return\<close>.\<close>

definition analyze_finish :: "int \<Rightarrow> proposal_id \<Rightarrow> model_response \<Rightarrow> agent \<Rightarrow> analysis \<times> agent" where
  "analyze_finish now pid response a =
     (case response of
        ServiceThrows msg \<Rightarrow>
          (failed_with (''Error: '' @ msg),
           (log_to now pid ''Error during analysis'' msg a)\<lparr>analysisInProgress := False\<rparr>)
      | Responded text parsedResult \<Rightarrow>
          let a1 = log_to now pid ''OpenAI Complete Response'' text a in
          (case parsedResult of
             None \<Rightarrow>
               (failed_with ''Could not parse model response as JSON'',
                (log_to now pid ''Invalid response format'' ''Could not parse as JSON'' a1)
                  \<lparr>analysisInProgress := False\<rparr>)
           | Some r \<Rightarrow>
               (case vote_decision r of
                  VoteOther \<Rightarrow>
                    (failed_with (''Error: '' @ ''parsedResult.vote_decision?.toLowerCase is not a function''),
                     (log_to now pid ''Error processing response''
                        ''parsedResult.vote_decision?.toLowerCase is not a function'' a1)
                       \<lparr>analysisInProgress := False\<rparr>)
                | VoteMissing \<Rightarrow>
                    (failed_with ''Invalid vote type received from model'',
                     (log_to now pid ''Invalid response format''
                        (''Vote type '' @ [CHR 0x22] @ ''undefined'' @ [CHR 0x22] @ '' is not valid'') a1)
                       \<lparr>analysisInProgress := False\<rparr>)
                | VoteText s \<Rightarrow>
                    if toLowerCase s = ''yes'' \<or> toLowerCase s = ''no''
                    then
                      (\<lparr>success = True, voteType = Some (toLowerCase s),
                        reasoning = Some (if truthy (review_reasoning r) then the (review_reasoning r)
                                          else ''No detailed reasoning provided.'')\<rparr>,
                       a1\<lparr>analysisInProgress := False\<rparr>)
                    else
                      (failed_with ''Invalid vote type received from model'',
                       (log_to now pid ''Invalid response format''
                          (''Vote type '' @ [CHR 0x22] @ toLowerCase s @ [CHR 0x22] @ '' is not valid'') a1)
                         \<lparr>analysisInProgress := False\<rparr>))))"

text \<open>A call that nothing interleaves with: the response arrives and the call goes
  on.\<close>

definition analyzeProposal ::
  "int \<Rightarrow> string + string \<Rightarrow> proposal_id \<Rightarrow> model_response \<Rightarrow> agent \<Rightarrow> analysis \<times> agent" where
  "analyzeProposal now prepared pid response a =
     (case analyze_start now prepared pid a of
        (Some r, a') \<Rightarrow> (r, a')
      | (None, a') \<Rightarrow> analyze_finish now pid response a')"

subsection \<open>The log calls when the database does not open\<close>

text \<open>
  \<open>logAgentCommunication\<close> opens the database with \<open>ensureDB()\<close> before its \<open>try\<close>,
  as every function of \<open>db.ts\<close> does, and \<open>ensureDB\<close> guards neither the opening of
  the file nor its \<open>CREATE TABLE\<close> statements: when the file cannot be opened, is
  locked or cannot be written, the exception leaves \<open>logAgentCommunication\<close>.  The
  functions above are \<open>analyzeProposal\<close> with the database at hand.  The functions of
  this subsection are \<open>analyzeProposal\<close> in general: the argument \<open>fault\<close> gives, for
  the log call with a given request text, the message of the exception that \<open>ensureDB\<close>
  raises there, if it raises.  On one path through \<open>analyzeProposal\<close> no two log calls
  have the same request text, so each has its own entry.  \<open>initModel\<close> reads the API
  key inside a \<open>try\<close> of its own; its entry is that of the key's name.
\<close>

type_synonym faults = "string \<Rightarrow> string option"

text \<open>How a part of \<open>analyzeProposal\<close> ends: it returns, it waits for the service, or
  an exception leaves it.\<close>

datatype outcome = Returned analysis | Awaiting | Threw string

definition try_log ::
  "faults \<Rightarrow> int \<Rightarrow> proposal_id \<Rightarrow> string \<Rightarrow> string \<Rightarrow> agent \<Rightarrow> string + agent" where
  "try_log fault now pid request response a =
     (case fault request of
        Some e \<Rightarrow> Inl e
      | None \<Rightarrow> Inr (log_to now pid request response a))"

text \<open>The \<open>catch\<close> of the outer \<open>try\<close>: the log call, then the release of the lock, then
  the \<open>return\<close>.  Nothing catches an exception of this log call.\<close>

definition outer_catch :: "faults \<Rightarrow> int \<Rightarrow> proposal_id \<Rightarrow> string \<Rightarrow> agent \<Rightarrow> outcome \<times> agent" where
  "outer_catch fault now pid msg a =
     (case try_log fault now pid ''Error during analysis'' msg a of
        Inl e \<Rightarrow> (Threw e, a)
      | Inr a' \<Rightarrow> (Returned (failed_with (''Error: '' @ msg)), a'\<lparr>analysisInProgress := False\<rparr>))"

text \<open>The \<open>catch\<close> of the inner \<open>try\<close>, which stands inside the outer \<open>try\<close>.\<close>

definition inner_catch :: "faults \<Rightarrow> int \<Rightarrow> proposal_id \<Rightarrow> string \<Rightarrow> agent \<Rightarrow> outcome \<times> agent" where
  "inner_catch fault now pid msg a =
     (case try_log fault now pid ''Error processing response'' msg a of
        Inl e \<Rightarrow> outer_catch fault now pid e a
      | Inr a' \<Rightarrow> (Returned (failed_with (''Error: '' @ msg)), a'\<lparr>analysisInProgress := False\<rparr>))"

text \<open>A response that the inner \<open>try\<close> refuses: the log call, the release, the
  \<open>return\<close>.\<close>

definition refuse_response ::
  "faults \<Rightarrow> int \<Rightarrow> proposal_id \<Rightarrow> string \<Rightarrow> string \<Rightarrow> agent \<Rightarrow> outcome \<times> agent" where
  "refuse_response fault now pid logged why a =
     (case try_log fault now pid ''Invalid response format'' logged a of
        Inl e \<Rightarrow> inner_catch fault now pid e a
      | Inr a' \<Rightarrow> (Returned (failed_with why), a'\<lparr>analysisInProgress := False\<rparr>))"

definition initModel_db :: "faults \<Rightarrow> agent \<Rightarrow> bool \<times> agent" where
  "initModel_db fault a =
     (case fault ''OPENAI_KEY'' of
        Some e \<Rightarrow> (False, a)
      | None \<Rightarrow> initModel a)"

definition analyze_start_db ::
  "faults \<Rightarrow> int \<Rightarrow> string + string \<Rightarrow> proposal_id \<Rightarrow> agent \<Rightarrow> outcome \<times> agent" where
  "analyze_start_db fault now prepared pid a =
     (if analysisInProgress a then (Returned no_result, a)
      else
        let a1 = a\<lparr>analysisInProgress := True\<rparr>;
            r = (if \<not> openaiClient a1 then initModel_db fault a1 else (True, a1))
        in if \<not> fst r then (Returned no_result, (snd r)\<lparr>analysisInProgress := False\<rparr>)
           else if \<not> openaiClient (snd r) then (Returned no_result, (snd r)\<lparr>analysisInProgress := False\<rparr>)
           else
             (case prepared of
                Inl msg \<Rightarrow> outer_catch fault now pid msg (snd r)
              | Inr prompt \<Rightarrow>
                  (case try_log fault now pid ''OpenAI Input Prompt'' prompt (snd r) of
                     Inl e \<Rightarrow> outer_catch fault now pid e (snd r)
                   | Inr a2 \<Rightarrow> (Awaiting, a2))))"

definition analyze_finish_db ::
  "faults \<Rightarrow> int \<Rightarrow> proposal_id \<Rightarrow> model_response \<Rightarrow> agent \<Rightarrow> outcome \<times> agent" where
  "analyze_finish_db fault now pid response a =
     (case response of
        ServiceThrows msg \<Rightarrow> outer_catch fault now pid msg a
      | Responded text parsedResult \<Rightarrow>
          (case try_log fault now pid ''OpenAI Complete Response'' text a of
             Inl e \<Rightarrow> outer_catch fault now pid e a
           | Inr a1 \<Rightarrow>
               (case parsedResult of
                  None \<Rightarrow>
                    refuse_response fault now pid ''Could not parse as JSON''
                      ''Could not parse model response as JSON'' a1
                | Some r \<Rightarrow>
                    (case vote_decision r of
                       VoteOther \<Rightarrow>
                         inner_catch fault now pid
                           ''parsedResult.vote_decision?.toLowerCase is not a function'' a1
                     | VoteMissing \<Rightarrow>
                         refuse_response fault now pid
                           (''Vote type '' @ [CHR 0x22] @ ''undefined'' @ [CHR 0x22] @ '' is not valid'')
                           ''Invalid vote type received from model'' a1
                     | VoteText s \<Rightarrow>
                         if toLowerCase s = ''yes'' \<or> toLowerCase s = ''no''
                         then
                           (Returned
                              \<lparr>success = True, voteType = Some (toLowerCase s),
                               reasoning = Some (if truthy (review_reasoning r) then the (review_reasoning r)
                                                 else ''No detailed reasoning provided.'')\<rparr>,
                            a1\<lparr>analysisInProgress := False\<rparr>)
                         else
                           refuse_response fault now pid
                             (''Vote type '' @ [CHR 0x22] @ toLowerCase s @ [CHR 0x22] @ '' is not valid'')
                             ''Invalid vote type received from model'' a1))))"

definition analyzeProposal_db ::
  "faults \<Rightarrow> int \<Rightarrow> string + string \<Rightarrow> proposal_id \<Rightarrow> model_response \<Rightarrow> agent \<Rightarrow> outcome \<times> agent" where
  "analyzeProposal_db fault now prepared pid response a =
     (case analyze_start_db fault now prepared pid a of
        (Awaiting, a') \<Rightarrow> analyze_finish_db fault now pid response a'
      | (Returned r, a') \<Rightarrow> (Returned r, a')
      | (Threw e, a') \<Rightarrow> (Threw e, a'))"

subsection \<open>Storing and scheduling the result\<close>

definition schedule_delay :: "builtins \<Rightarrow> db \<Rightarrow> js_number" where
  "schedule_delay js st =
     parseInt js (if truthy (getConfigValue ''VOTE_SCHEDULE_DELAY'' st)
                  then the (getConfigValue ''VOTE_SCHEDULE_DELAY'' st) else ''3600'')"

definition processProposal ::
  "builtins \<Rightarrow> int \<Rightarrow> string + string \<Rightarrow> proposal_id \<Rightarrow> model_response \<Rightarrow> agent \<Rightarrow> agent" where
  "processProposal js now prepared pid response a =
     (let res = analyzeProposal now prepared pid response a;
          a1 = snd res
      in if success (fst res) \<and> truthy (voteType (fst res)) \<and> truthy (reasoning (fst res))
         then
           let v = the (voteType (fst res));
               stored = storeAgentVote now pid v (the (reasoning (fst res))) (store a1)
           in if 0 < fst stored
              then
                (if v = ''yes'' \<or> v = ''no''
                 then
                   let scheduled = scheduleVote js now pid v (schedule_delay js (snd stored)) (snd stored)
                   in if 0 < fst scheduled
                      then a1\<lparr>store := snd (markAgentVoteScheduled pid (snd scheduled))\<rparr>
                      else a1\<lparr>store := snd scheduled\<rparr>
                 else a1\<lparr>store := snd stored\<rparr>)
              else a1\<lparr>store := snd stored\<rparr>
         else a1)"

section \<open>Eligibility of unanalysed proposals\<close>

text \<open>The array form of the ballots is searched by a loop that stops at the first
  record of the neuron; the object form is a property lookup.\<close>

fun ballot_list_has :: "string \<Rightarrow> ballot list \<Rightarrow> bool" where
  "ballot_list_has n [] = False"
| "ballot_list_has n (b # bs) = (if neuronId b = Some n then True else ballot_list_has n bs)"

definition isEligible :: "string \<Rightarrow> ballots \<Rightarrow> bool" where
  "isEligible n bs =
     (case bs of
        NoBallots \<Rightarrow> False
      | BallotMap m \<Rightarrow> (case map_of m n of None \<Rightarrow> False | Some b \<Rightarrow> True)
      | BallotList l \<Rightarrow> ballot_list_has n l)"

text \<open>The query of \<open>getUnanalyzedProposals\<close>: the proposals without an agent vote,
  highest \<open>CAST(id AS INTEGER)\<close> first, at most \<open>limit\<close> of them.  Rows of equal rank
  are kept in table order.\<close>

definition unanalyzed_rows :: "builtins \<Rightarrow> nat \<Rightarrow> db \<Rightarrow> proposal_row list" where
  "unanalyzed_rows js limit st =
     take limit
       (sort_key (\<lambda>r. - cast_integer js (p_id r))
          (filter (\<lambda>r. \<not> (\<exists>v \<in> set (agent_votes st). av_proposal_id v = p_id r)) (proposals st)))"

definition getUnanalyzedProposals ::
  "builtins \<Rightarrow> nat \<Rightarrow> string option \<Rightarrow> db \<Rightarrow> proposal_row list" where
  "getUnanalyzedProposals js limit neuron st =
     (if truthy neuron
      then filter (\<lambda>r. isEligible (the neuron) (ballots (p_data r))) (unanalyzed_rows js limit st)
      else unanalyzed_rows js limit st)"

text \<open>The voting window as \<open>processAndVoteOnStoredProposals\<close> of \<open>neuron.ts\<close> tests it:
  \<open>proposalTimestampSeconds + (deadlineTimestampSeconds || 0) > now\<close>.\<close>

definition voting_window_open :: "int \<Rightarrow> payload \<Rightarrow> bool" where
  "voting_window_open now p =
     (now < proposalTimestampSeconds p +
        (case deadlineTimestampSeconds p of None \<Rightarrow> 0 | Some d \<Rightarrow> d))"

section \<open>Notions the statements use\<close>


text \<open>A neuron identifier appears among the ballots of a payload: as a key of the object
  form, or as the \<open>neuronId\<close> of a record of the array form.\<close>

definition among_ballots :: "string \<Rightarrow> ballots \<Rightarrow> bool" where
  "among_ballots n bs =
     (case bs of
        NoBallots \<Rightarrow> False
      | BallotMap m \<Rightarrow> n \<in> fst ` set m
      | BallotList l \<Rightarrow> (\<exists>b \<in> set l. neuronId b = Some n))"

text \<open>The ids of a page that the loop looks at, and the lowest of them.\<close>

definition page_ids :: "net_proposal list \<Rightarrow> int list" where
  "page_ids batch = map (\<lambda>p. the (np_id p)) (filter (\<lambda>p. id_truthy (np_id p)) batch)"

definition lowest_id :: "net_proposal list \<Rightarrow> int option" where
  "lowest_id batch = (if page_ids batch = [] then None else Some (Min (set (page_ids batch))))"

text \<open>The arguments of the direct calls in a history are identifiers: not empty.\<close>

fun id_given :: "cutoff_op \<Rightarrow> bool" where
  "id_given (SyncRun listProposals) = True"
| "id_given (UpdateMinimum proposalId) = (proposalId \<noteq> [])"

text \<open>The store that the loop over a page ends with, however it ends.\<close>

fun batch_store :: "batch_result \<Rightarrow> db" where
  "batch_store (BatchThrew st) = st"
| "batch_store (BatchDone batchMinId allExist reached st) = st"

text \<open>The lowest id the loop has seen, given the lowest so far and the ids still to
  come.\<close>

definition acc_min :: "int option \<Rightarrow> int list \<Rightarrow> int option" where
  "acc_min acc ids =
     (case acc of
        None \<Rightarrow> if ids = [] then None else Some (Min (set ids))
      | Some a \<Rightarrow> Some (Min (insert a (set ids))))"

text \<open>What \<open>markVoteExecuted\<close> and \<open>recordVoteError\<close> make of the row they update, and
  what one turn of the sweep's loop, and the whole loop, make of a row of the table.\<close>

definition mark_row :: "int \<Rightarrow> scheduled_vote \<Rightarrow> scheduled_vote" where
  "mark_row now r = r\<lparr>sv_executed := True, sv_executed_time := Some now\<rparr>"

definition error_row :: "int \<Rightarrow> thrown \<Rightarrow> scheduled_vote \<Rightarrow> scheduled_vote" where
  "error_row now e r =
     r\<lparr>sv_executed := True, sv_executed_time := Some now,
       sv_error_message := Some (thrown_message e),
       sv_error_details := (if thrown_details e = [] then None else Some (thrown_details e))\<rparr>"

definition row_after ::
  "builtins \<Rightarrow> governance \<Rightarrow> int \<Rightarrow> int \<Rightarrow> scheduled_vote \<Rightarrow> scheduled_vote \<Rightarrow> scheduled_vote" where
  "row_after js gov neuron now v r =
     (if sv_id r = sv_id v
      then (case cast_outcome_of js gov neuron v of
              CastSucceeded \<Rightarrow> mark_row now r
            | CastFailed e \<Rightarrow> error_row now e r
            | RefreshThrew e \<Rightarrow> error_row now e (mark_row now r))
      else r)"

fun rows_after ::
  "builtins \<Rightarrow> governance \<Rightarrow> int \<Rightarrow> int \<Rightarrow> scheduled_vote list \<Rightarrow> scheduled_vote \<Rightarrow> scheduled_vote" where
  "rows_after js gov neuron now [] r = r"
| "rows_after js gov neuron now (v # vs) r =
     rows_after js gov neuron now vs (row_after js gov neuron now v r)"

section \<open>Examples\<close>

definition db0 :: db where
  "db0 = \<lparr>config = [], proposals = [], scheduled_votes = [], scheduled_votes_seq = 0,
          agent_votes = [], agent_votes_seq = 0, agent_logs = [], agent_logs_seq = 0\<rparr>"

text \<open>Proposal 42 as fetched from the network, analysed and scheduled: an agent vote, two
  log entries and an active scheduled vote.  The authentication key has its default,
  the empty string.\<close>

definition payload42 :: payload where
  "payload42 =
     \<lparr>placeholder = False, status = 1, topic = 13,
      proposalTimestampSeconds = 1000, deadlineTimestampSeconds = Some 100,
      title = ''Upgrade'', summary = ''Upgrade the registry'',
      ballots = BallotList [\<lparr>neuronId = Some ''7'', vote = 0\<rparr>]\<rparr>"

definition db42 :: db where
  "db42 =
     \<lparr>config = [(''IC_AUTHENTICATION_KEY'', [])],
      proposals = [\<lparr>p_id = ''42'', p_data = payload42, p_processed = False\<rparr>],
      scheduled_votes =
        [\<lparr>sv_id = 1, sv_proposal_id = ''42'', sv_vote_type = ''yes'', sv_scheduled_time = 4600,
          sv_executed = False, sv_executed_time = None, sv_error_message = None,
          sv_error_details = None\<rparr>],
      scheduled_votes_seq = 1,
      agent_votes =
        [\<lparr>av_id = 1, av_proposal_id = ''42'', av_vote_type = ''yes'', av_reasoning = ''Routine'',
          av_created_at = 1000, av_scheduled = True\<rparr>],
      agent_votes_seq = 1,
      agent_logs =
        [\<lparr>al_id = 1, al_proposal_id = ''42'', al_request = ''OpenAI Input Prompt'',
          al_response = ''Analyze'', al_created_at = 1000\<rparr>,
         \<lparr>al_id = 2, al_proposal_id = ''42'', al_request = ''OpenAI Complete Response'',
          al_response = ''yes'', al_created_at = 1000\<rparr>],
      agent_logs_seq = 2\<rparr>"

text \<open>Proposal 999 after a cast that was refused: its scheduled vote is executed and
  carries the error.\<close>

definition failed_row :: scheduled_vote where
  "failed_row =
     \<lparr>sv_id = 1, sv_proposal_id = ''999'', sv_vote_type = ''yes'', sv_scheduled_time = 100,
      sv_executed = True, sv_executed_time = Some 100,
      sv_error_message = Some ''not authorized'', sv_error_details = Some ''{}''\<rparr>"

definition db999 :: db where
  "db999 =
     \<lparr>config = [],
      proposals = [\<lparr>p_id = ''999'', p_data = placeholderData 0 ''999'', p_processed = False\<rparr>],
      scheduled_votes = [failed_row],
      scheduled_votes_seq = 1,
      agent_votes = [], agent_votes_seq = 0, agent_logs = [], agent_logs_seq = 0\<rparr>"

text \<open>A process that has not analysed anything yet, with an API key in its config.\<close>

definition agent0 :: agent where
  "agent0 = \<lparr>analysisInProgress = False, openaiClient = False,
             store = db0\<lparr>config := [(''OPENAI_KEY'', ''sk-test'')]\<rparr>\<rparr>"

definition maybe_response :: model_response where
  "maybe_response =
     Responded ''{vote_decision: maybe}''
       (Some \<lparr>vote_decision = VoteText ''maybe'', review_reasoning = Some ''Unclear''\<rparr>)"

definition yes_response :: model_response where
  "yes_response =
     Responded ''{vote_decision: YES}''
       (Some \<lparr>vote_decision = VoteText ''YES'', review_reasoning = Some ''Routine upgrade''\<rparr>)"

text \<open>Decimal conversions to run the examples with: they agree with the built-ins on
  texts of digits, on the empty text and on texts without a digit, and the examples stay
  below \<open>2 ^ 53\<close>.\<close>

fun digits_value :: "string \<Rightarrow> nat \<Rightarrow> nat option" where
  "digits_value [] acc = Some acc"
| "digits_value (c # cs) acc =
     (if 48 \<le> (of_char c :: nat) \<and> (of_char c :: nat) \<le> 57
      then digits_value cs (10 * acc + ((of_char c :: nat) - 48)) else None)"

definition decimal :: "string \<Rightarrow> int option" where
  "decimal s = (if s = [] then Some 0 else map_option int (digits_value s 0))"

fun show_nat :: "nat \<Rightarrow> string" where
  "show_nat n = (if n < 10 then [char_of (48 + n)] else show_nat (n div 10) @ [char_of (48 + n mod 10)])"

declare show_nat.simps [simp del]

definition js0 :: builtins where
  "js0 =
     \<lparr>BigInt = decimal,
      bigint_toString = (\<lambda>n. show_nat (nat n)),
      parseInt = (\<lambda>s. if s = [] then NaN else case decimal s of None \<Rightarrow> NaN | Some n \<Rightarrow> Whole n),
      cast_integer = (\<lambda>s. case decimal s of None \<Rightarrow> 0 | Some n \<Rightarrow> n),
      round_double = (\<lambda>n. n)\<rparr>"

text \<open>Proposal 42 before any analysis.\<close>

definition db_unanalysed :: db where
  "db_unanalysed = db42\<lparr>scheduled_votes := [], agent_votes := [], agent_logs := []\<rparr>"

text \<open>A store whose cutoff is 9, and a network that answers the first request with
  proposals 30, 29 and 28 and every later one with the empty page.\<close>

definition db9 :: db where
  "db9 = db0\<lparr>config := [(''minimum_proposal_id'', ''9'')]\<rparr>"

definition net3 :: "nat \<Rightarrow> int option \<Rightarrow> page" where
  "net3 k before =
     (if k = 1
      then Page [\<lparr>np_id = Some 30, np_info = payload42\<rparr>,
                 \<lparr>np_id = Some 29, np_info = payload42\<rparr>,
                 \<lparr>np_id = Some 28, np_info = payload42\<rparr>]
      else Page [])"

text \<open>A store with the authentication key configured and one scheduled vote, on
  proposal 999, which is not in the repository; a canister that refuses the vote; and a
  canister that casts it and then fails to return the proposal.\<close>

definition due_row :: scheduled_vote where
  "due_row =
     \<lparr>sv_id = 1, sv_proposal_id = ''999'', sv_vote_type = ''yes'', sv_scheduled_time = 100,
      sv_executed = False, sv_executed_time = None, sv_error_message = None,
      sv_error_details = None\<rparr>"

definition db_due :: db where
  "db_due = db0\<lparr>config := [(''IC_AUTHENTICATION_KEY'', ''key'')],
                scheduled_votes := [due_row], scheduled_votes_seq := 1\<rparr>"

definition not_authorized :: thrown where
  "not_authorized = \<lparr>thrown_message = ''not authorized'', thrown_details = ''{}''\<rparr>"

definition network_error :: thrown where
  "network_error = \<lparr>thrown_message = ''network error'', thrown_details = ''{}''\<rparr>"

definition gov_refuses :: governance where
  "gov_refuses =
     \<lparr>gov_listNeurons = Some [7],
      gov_registerVote = (\<lambda>neuron proposal vote. Some not_authorized),
      gov_getProposal = (\<lambda>attempt proposal. FetchThrows network_error)\<rparr>"

definition gov_casts :: governance where
  "gov_casts =
     \<lparr>gov_listNeurons = Some [7],
      gov_registerVote = (\<lambda>neuron proposal vote. None),
      gov_getProposal = (\<lambda>attempt proposal. FetchThrows network_error)\<rparr>"


text \<open>The first call of \<open>analyzeProposal\<close> of a process, on proposal 42, while it waits
  for the reasoning service: the lock is held and the prompt is logged.\<close>

definition waiting42 :: agent where
  "waiting42 =
     \<lparr>analysisInProgress = True, openaiClient = True,
      store = db0\<lparr>config := [(''OPENAI_KEY'', ''sk-test'')],
                  agent_logs := [\<lparr>al_id = 1, al_proposal_id = ''42'',
                                  al_request = ''OpenAI Input Prompt'',
                                  al_response = ''Analyze 42'', al_created_at = 1000\<rparr>],
                  agent_logs_seq := 1\<rparr>\<rparr>"

text \<open>The database opens for every call; and the database has become unavailable (the
  file is locked by another process, say).\<close>

definition opens :: faults where
  "opens request = None"

definition locked :: faults where
  "locked request = Some ''database is locked''"

text \<open>A store in which the delay setting is no number.\<close>

definition db_soon :: db where
  "db_soon = db42\<lparr>config := [(''VOTE_SCHEDULE_DELAY'', ''soon'')]\<rparr>"
section \<open>Proposals are never overwritten by the placeholder\<close>

lemma proposalExists_iff:
  "proposalExists pid st \<longleftrightarrow> (\<exists>r \<in> set (proposals st). p_id r = pid)"
  by (auto simp: proposalExists_def filter_empty_conv)

lemma upsert_proposal_ids:
  "map p_id (upsert_proposal pid d rows) =
     (if pid \<in> set (map p_id rows) then map p_id rows else map p_id rows @ [pid])"
proof -
  have "map p_id (map (\<lambda>r. if p_id r = pid then r\<lparr>p_data := d\<rparr> else r) rows) = map p_id rows"
    by (induction rows) auto
  then show ?thesis
    by (auto simp: upsert_proposal_def)
qed

lemma proposalExists_ids:
  "proposalExists pid st \<longleftrightarrow> pid \<in> set (map p_id (proposals st))"
  by (auto simp: proposalExists_iff)

lemma proposalExists_upsert:
  "proposalExists pid (st\<lparr>proposals := upsert_proposal pid d (proposals st)\<rparr>)"
  by (simp add: proposalExists_ids upsert_proposal_ids del: set_map)

lemma proposalExists_upsert_other:
  "proposalExists q st \<Longrightarrow> proposalExists q (st\<lparr>proposals := upsert_proposal pid d (proposals st)\<rparr>)"
  by (simp add: proposalExists_ids upsert_proposal_ids del: set_map)

lemma ensure_exists: "proposalExists pid (snd (ensureProposalExists now pid st))"
  by (auto simp: ensureProposalExists_def proposalExists_upsert)

lemma ensure_keeps: "proposalExists q st \<Longrightarrow> proposalExists q (snd (ensureProposalExists now pid st))"
  by (auto simp: ensureProposalExists_def proposalExists_upsert_other)

lemma ensure_sv:
  "scheduled_votes (snd (ensureProposalExists now pid st)) = scheduled_votes st"
  "scheduled_votes_seq (snd (ensureProposalExists now pid st)) = scheduled_votes_seq st"
  by (auto simp: ensureProposalExists_def)

text \<open>
  \<^bold>\<open>C10.\<close>  For a proposal id that is in the repository, \<open>ensureProposalExists\<close> returns
  \<open>true\<close> and the store it leaves is the store it found: no table changes, and the
  payload is not replaced by the placeholder.  For an id that is not in the repository it
  returns \<open>true\<close> and appends one row, unprocessed, whose payload is the placeholder
  (\<open>placeholder = true\<close>); nothing else changes.
\<close>

theorem ensureProposalExists_keeps_existing:
  "(proposalExists pid st \<longrightarrow> ensureProposalExists now pid st = (True, st)) \<and>
   (\<not> proposalExists pid st \<longrightarrow>
      ensureProposalExists now pid st =
        (True, st\<lparr>proposals := proposals st @
                 [\<lparr>p_id = pid, p_data = placeholderData now pid, p_processed = False\<rparr>]\<rparr>)
      \<and> placeholder (placeholderData now pid))"
  by (auto simp: ensureProposalExists_def proposalExists_iff upsert_proposal_def placeholderData_def)

theorem ensureProposalExists_keeps_existing_witness:
  "proposalExists ''42'' db42 \<and>
   ensureProposalExists 5000 ''42'' db42 = (True, db42) \<and>
   getProposal ''42'' (snd (ensureProposalExists 5000 ''42'' db42)) = Some payload42 \<and>
   \<not> proposalExists ''43'' db42 \<and>
   proposals (snd (ensureProposalExists 5000 ''43'' db42)) =
     [\<lparr>p_id = ''42'', p_data = payload42, p_processed = False\<rparr>,
      \<lparr>p_id = ''43'', p_data = placeholderData 5000 ''43'', p_processed = False\<rparr>]"
proof -
  have a: "proposalExists ''42'' db42"
    by (simp add: proposalExists_def db42_def)
  have b: "\<not> proposalExists ''43'' db42"
    by (simp add: proposalExists_def db42_def)
  have c: "getProposal ''42'' db42 = Some payload42"
    by (simp add: getProposal_def db42_def)
  from a b c ensureProposalExists_keeps_existing [of "''42''" db42 5000]
    ensureProposalExists_keeps_existing [of "''43''" db42 5000]
  show ?thesis
    by (simp add: db42_def)
qed

section \<open>Scheduling a vote\<close>

lemma plus_whole_exact: "\<bar>a + d\<bar> \<le> 2 ^ 53 \<Longrightarrow> plus_whole js a d = a + d"
  by (simp add: plus_whole_def)

lemma scheduleVote_result:
  "scheduleVote js now pid v (Whole d) st =
     (Suc (scheduled_votes_seq st),
      (snd (ensureProposalExists now pid st))
        \<lparr>scheduled_votes := filter (\<lambda>r. sv_proposal_id r \<noteq> pid) (scheduled_votes st) @
           [\<lparr>sv_id = Suc (scheduled_votes_seq st), sv_proposal_id = pid, sv_vote_type = v,
             sv_scheduled_time = plus_whole js now d, sv_executed = False, sv_executed_time = None,
             sv_error_message = None, sv_error_details = None\<rparr>],
         scheduled_votes_seq := Suc (scheduled_votes_seq st)\<rparr>)"
  by (simp add: scheduleVote_def Let_def js_plus_def insert_scheduled_vote_def
      delete_scheduled_votes_def ensure_sv)

lemma scheduleVote_refused:
  "scheduleVote js now pid v NaN st =
     (0, (snd (ensureProposalExists now pid st))
           \<lparr>scheduled_votes := filter (\<lambda>r. sv_proposal_id r \<noteq> pid) (scheduled_votes st)\<rparr>)"
  by (simp add: scheduleVote_def Let_def js_plus_def insert_scheduled_vote_def
      delete_scheduled_votes_def ensure_sv)

lemma scheduleVote_proposals:
  "proposals (snd (scheduleVote js now pid v d st)) = proposals (snd (ensureProposalExists now pid st))"
  by (cases d) (simp_all add: scheduleVote_result scheduleVote_refused)

lemma scheduleVote_exists: "proposalExists pid (snd (scheduleVote js now pid v d st))"
  using ensure_exists [of pid now st]
  by (simp add: proposalExists_iff scheduleVote_proposals)

lemma filter_filter_neg: "filter P (filter (\<lambda>r. \<not> P r) xs) = []"
  by (induction xs) auto

lemma scheduleVote_of_pid:
  "filter (\<lambda>r. sv_proposal_id r = pid) (scheduled_votes (snd (scheduleVote js now pid v (Whole d) st))) =
     [\<lparr>sv_id = fst (scheduleVote js now pid v (Whole d) st), sv_proposal_id = pid, sv_vote_type = v,
       sv_scheduled_time = plus_whole js now d, sv_executed = False, sv_executed_time = None,
       sv_error_message = None, sv_error_details = None\<rparr>]"
  by (simp add: scheduleVote_result filter_filter_neg [of "\<lambda>r. sv_proposal_id r = pid", simplified])

lemma scheduleVote_active:
  "active_votes pid (snd (scheduleVote js now pid v (Whole d) st)) =
     [\<lparr>sv_id = fst (scheduleVote js now pid v (Whole d) st), sv_proposal_id = pid, sv_vote_type = v,
       sv_scheduled_time = plus_whole js now d, sv_executed = False, sv_executed_time = None,
       sv_error_message = None, sv_error_details = None\<rparr>]"
proof -
  have eq: "filter (\<lambda>r. sv_proposal_id r = pid \<and> \<not> sv_executed r) xs =
      filter (\<lambda>r. \<not> sv_executed r) (filter (\<lambda>r. sv_proposal_id r = pid) xs)" for xs
    by (simp add: conj_commute)
  show ?thesis
    unfolding active_votes_def eq scheduleVote_of_pid by simp
qed

lemma scheduleVote_refused_active:
  "active_votes pid (snd (scheduleVote js now pid v NaN st)) = []"
proof -
  have "filter (\<lambda>r. sv_proposal_id r = pid \<and> \<not> sv_executed r)
      (filter (\<lambda>r. sv_proposal_id r \<noteq> pid) xs) = []" for xs :: "scheduled_vote list"
    by (induction xs) auto
  then show ?thesis
    by (simp add: active_votes_def scheduleVote_refused)
qed

text \<open>
  \<^bold>\<open>C3\<close>, as the code has it.  Whatever the proposal id, the vote direction and the
  delay, \<open>NaN\<close> included: after \<open>scheduleVote\<close> the proposal has a row in the
  repository, and the repository is what \<open>ensureProposalExists\<close> makes of it (a
  placeholder is inserted for an unknown id).  After two calls in succession of which
  the second has a delay that is a number, the proposal has exactly one active scheduled
  vote, with the direction of the second call and the scheduled time
  \<open>now + delaySeconds\<close> of the second call, as JavaScript adds the two: exactly, as long
  as the sum is at most \<open>2 ^ 53\<close> in size.  The id the second call returns is that row's
  and is not 0.
\<close>

theorem scheduleVote_twice:
  "proposalExists pid (snd (scheduleVote js now1 pid v1 d1 st)) \<and>
   proposals (snd (scheduleVote js now1 pid v1 d1 st)) =
     proposals (snd (ensureProposalExists now1 pid st)) \<and>
   active_votes pid
       (snd (scheduleVote js now2 pid v2 (Whole d2) (snd (scheduleVote js now1 pid v1 d1 st)))) =
     [\<lparr>sv_id = fst (scheduleVote js now2 pid v2 (Whole d2) (snd (scheduleVote js now1 pid v1 d1 st))),
       sv_proposal_id = pid, sv_vote_type = v2,
       sv_scheduled_time = (if \<bar>now2 + d2\<bar> \<le> 2 ^ 53 then now2 + d2 else round_double js (now2 + d2)),
       sv_executed = False, sv_executed_time = None,
       sv_error_message = None, sv_error_details = None\<rparr>] \<and>
   0 < fst (scheduleVote js now2 pid v2 (Whole d2) (snd (scheduleVote js now1 pid v1 d1 st)))"
proof (intro conjI)
  show "proposalExists pid (snd (scheduleVote js now1 pid v1 d1 st))"
    by (rule scheduleVote_exists)
  show "proposals (snd (scheduleVote js now1 pid v1 d1 st)) =
      proposals (snd (ensureProposalExists now1 pid st))"
    by (rule scheduleVote_proposals)
  show "active_votes pid
       (snd (scheduleVote js now2 pid v2 (Whole d2) (snd (scheduleVote js now1 pid v1 d1 st)))) =
     [\<lparr>sv_id = fst (scheduleVote js now2 pid v2 (Whole d2) (snd (scheduleVote js now1 pid v1 d1 st))),
       sv_proposal_id = pid, sv_vote_type = v2,
       sv_scheduled_time = (if \<bar>now2 + d2\<bar> \<le> 2 ^ 53 then now2 + d2 else round_double js (now2 + d2)),
       sv_executed = False, sv_executed_time = None,
       sv_error_message = None, sv_error_details = None\<rparr>]"
    by (simp only: scheduleVote_active plus_whole_def)
  show "0 < fst (scheduleVote js now2 pid v2 (Whole d2) (snd (scheduleVote js now1 pid v1 d1 st)))"
    by (simp add: scheduleVote_result)
qed

text \<open>The scenario of the specification: proposal 12345, \<open>yes\<close> in an hour, then \<open>no\<close> in
  a minute.\<close>

theorem scheduleVote_twice_witness:
  "active_votes ''12345''
     (snd (scheduleVote js0 1000 ''12345'' ''no'' (Whole 60)
        (snd (scheduleVote js0 1000 ''12345'' ''yes'' (Whole 3600) db0)))) =
     [\<lparr>sv_id = 2, sv_proposal_id = ''12345'', sv_vote_type = ''no'',
       sv_scheduled_time = 1060, sv_executed = False, sv_executed_time = None,
       sv_error_message = None, sv_error_details = None\<rparr>]"
  using scheduleVote_twice [of "''12345''" js0 1000 "''yes''" "Whole 3600" db0 1000 "''no''" 60]
  by (simp add: scheduleVote_result db0_def)

text \<open>The claim as stated fails at the delay \<open>NaN\<close>, which \<open>processProposal\<close> passes
  when the setting \<open>VOTE_SCHEDULE_DELAY\<close> is no number: the rows of the proposal are
  deleted, the insert is refused, \<open>scheduleVote\<close> returns 0, and the proposal, which had
  an active scheduled vote, has none.  The same after two calls in succession.\<close>

theorem scheduleVote_nan_delay:
  "schedule_delay js0 db_soon = NaN \<and>
   length (active_votes ''42'' db_soon) = 1 \<and>
   fst (scheduleVote js0 5000 ''42'' ''no'' NaN db_soon) = 0 \<and>
   active_votes ''42'' (snd (scheduleVote js0 5000 ''42'' ''no'' NaN db_soon)) = [] \<and>
   active_votes ''12345''
     (snd (scheduleVote js0 1000 ''12345'' ''no'' NaN
        (snd (scheduleVote js0 1000 ''12345'' ''yes'' (Whole 3600) db0)))) = []"
proof -
  have "decimal ''soon'' = None"
    by (simp add: decimal_def)
  then have "schedule_delay js0 db_soon = NaN"
    by (simp add: schedule_delay_def getConfigValue_def db_soon_def js0_def)
  moreover have "length (active_votes ''42'' db_soon) = 1"
    by (simp add: active_votes_def db_soon_def db42_def)
  moreover have "fst (scheduleVote js0 5000 ''42'' ''no'' NaN db_soon) = 0"
    by (simp add: scheduleVote_refused)
  ultimately show ?thesis
    by (simp add: scheduleVote_refused_active)
qed

text \<open>
  \<^bold>\<open>C4\<close>, as the code has it.  \<open>scheduleVote\<close> deletes every scheduled vote of the
  proposal, executed or not (\<open>DELETE FROM scheduled_votes WHERE proposal_id = ?\<close>; the
  table is \<open>UNIQUE(proposal_id)\<close>), keeps the rows of all other proposals as they are and
  in their order, and appends the new unexecuted row.  With the delay \<open>NaN\<close> the
  deletion is the same and no row is appended.
\<close>

theorem scheduleVote_supersedes_all:
  "scheduled_votes (snd (scheduleVote js now pid v (Whole d) st)) =
     filter (\<lambda>r. sv_proposal_id r \<noteq> pid) (scheduled_votes st) @
       [\<lparr>sv_id = Suc (scheduled_votes_seq st), sv_proposal_id = pid, sv_vote_type = v,
         sv_scheduled_time = (if \<bar>now + d\<bar> \<le> 2 ^ 53 then now + d else round_double js (now + d)),
         sv_executed = False, sv_executed_time = None,
         sv_error_message = None, sv_error_details = None\<rparr>] \<and>
   scheduled_votes (snd (scheduleVote js now pid v NaN st)) =
     filter (\<lambda>r. sv_proposal_id r \<noteq> pid) (scheduled_votes st)"
  by (simp add: scheduleVote_result scheduleVote_refused plus_whole_def)

text \<open>The claim as stated fails: proposal 999 has an executed scheduled vote with a
  recorded error; scheduling a new vote removes that row from the table.\<close>

theorem scheduleVote_deletes_executed_row:
  "failed_row \<in> set (scheduled_votes db999) \<and> sv_executed failed_row \<and>
   sv_proposal_id failed_row = ''999'' \<and>
   failed_row \<notin> set (scheduled_votes (snd (scheduleVote js0 200 ''999'' ''no'' (Whole 60) db999))) \<and>
   scheduled_votes (snd (scheduleVote js0 200 ''999'' ''no'' (Whole 60) db999)) =
     [\<lparr>sv_id = 2, sv_proposal_id = ''999'', sv_vote_type = ''no'',
       sv_scheduled_time = 260, sv_executed = False, sv_executed_time = None,
       sv_error_message = None, sv_error_details = None\<rparr>]"
  by (simp add: scheduleVote_result plus_whole_def db999_def failed_row_def)

section \<open>Cancelling a scheduled vote\<close>

text \<open>
  \<^bold>\<open>C9\<close>, as the code has it.  \<open>cancelScheduledVote\<close> returns \<open>true\<close> for every
  proposal id and every store: it deletes the scheduled votes of the proposal, and
  when the proposal has none the store is unchanged.  (The function returns \<open>false\<close>
  only from its \<open>catch\<close>, on a storage error.)
\<close>

theorem cancelScheduledVote_returns_true:
  "fst (cancelScheduledVote pid st) = True \<and>
   scheduled_votes (snd (cancelScheduledVote pid st)) =
     filter (\<lambda>r. sv_proposal_id r \<noteq> pid) (scheduled_votes st) \<and>
   ((\<forall>r \<in> set (scheduled_votes st). sv_proposal_id r \<noteq> pid) \<longrightarrow>
      snd (cancelScheduledVote pid st) = st)"
  by (simp add: cancelScheduledVote_def delete_scheduled_votes_def filter_id_conv)

theorem cancelScheduledVote_returns_true_witness:
  "scheduled_votes db999 = [failed_row] \<and> sv_proposal_id failed_row = ''999'' \<and>
   cancelScheduledVote ''42'' db999 = (True, db999)"
proof -
  have "\<forall>r \<in> set (scheduled_votes db999). sv_proposal_id r \<noteq> ''42''"
    by (simp add: db999_def failed_row_def)
  with cancelScheduledVote_returns_true [of "''42''" db999]
  show ?thesis
    by (simp add: db999_def failed_row_def prod_eq_iff)
qed

text \<open>The claim as stated fails: nothing is scheduled in the empty store, and the cancel
  operation returns \<open>true\<close>.\<close>

theorem cancelScheduledVote_nothing_scheduled:
  "scheduled_votes db0 = [] \<and> cancelScheduledVote ''42'' db0 = (True, db0)"
  by (simp add: cancelScheduledVote_def delete_scheduled_votes_def db0_def)

section \<open>Resetting an analysis\<close>

lemma resetAgentData_ok:
  "resetAgentData NoFailure pid st =
     (Inr True, st\<lparr>agent_votes := filter (\<lambda>r. av_proposal_id r \<noteq> pid) (agent_votes st),
                  agent_logs := filter (\<lambda>r. al_proposal_id r \<noteq> pid) (agent_logs st)\<rparr>)"
  by (simp add: resetAgentData_def connect_def begin_transaction_def delete_agent_votes_def
      delete_agent_logs_def)

text \<open>A statement of the open transaction fails and leaves the transaction open: the
  handler rolls back and \<open>false\<close> is returned.\<close>

lemma resetAgentData_rolled_back:
  "failure \<in> {DeleteVotesFails False, DeleteLogsFails False, CommitFails False} \<Longrightarrow>
     resetAgentData failure pid st = (Inr False, st)"
  by (auto simp: resetAgentData_def connect_def begin_transaction_def delete_agent_votes_def
      delete_agent_logs_def statement_fails_def reset_catch_def rollback_def)

text \<open>No transaction is open when the handler runs: \<open>ROLLBACK\<close> raises, and the
  exception leaves \<open>resetAgentData\<close>.\<close>

lemma resetAgentData_raises:
  "failure \<in> {BeginFails, DeleteVotesFails True, DeleteLogsFails True, CommitFails True} \<Longrightarrow>
     resetAgentData failure pid st = (Inl no_transaction, st)"
  by (auto simp: resetAgentData_def connect_def begin_transaction_def delete_agent_votes_def
      delete_agent_logs_def statement_fails_def end_transaction_def reset_catch_def rollback_def)

text \<open>The store is all or nothing in every case.\<close>

lemma resetAgentData_store:
  "snd (resetAgentData failure pid st) =
     (if failure = NoFailure
      then st\<lparr>agent_votes := filter (\<lambda>r. av_proposal_id r \<noteq> pid) (agent_votes st),
              agent_logs := filter (\<lambda>r. al_proposal_id r \<noteq> pid) (agent_logs st)\<rparr>
      else st)"
proof (cases failure)
  case NoFailure
  then show ?thesis
    by (simp add: resetAgentData_ok)
next
  case BeginFails
  then show ?thesis
    by (simp add: resetAgentData_raises)
next
  case (DeleteVotesFails ended)
  then show ?thesis
    by (cases ended) (simp_all add: resetAgentData_raises resetAgentData_rolled_back)
next
  case (DeleteLogsFails ended)
  then show ?thesis
    by (cases ended) (simp_all add: resetAgentData_raises resetAgentData_rolled_back)
next
  case (CommitFails ended)
  then show ?thesis
    by (cases ended) (simp_all add: resetAgentData_raises resetAgentData_rolled_back)
qed

lemma filter_conj_neg: "filter (\<lambda>r. P r \<and> Q r) (filter (\<lambda>r. \<not> P r) xs) = []"
  by (induction xs) auto

text \<open>The reset endpoint on a proposal of the repository, when no statement fails: the
  proposal is left with no agent vote, no agent log and no active scheduled vote, and
  the repository is as it was.\<close>

lemma reset_agent_analysis_ok:
  "proposalExists pid st \<Longrightarrow>
   reset_agent_analysis NoFailure pid st =
     (200, st\<lparr>agent_votes := filter (\<lambda>r. av_proposal_id r \<noteq> pid) (agent_votes st),
              agent_logs := filter (\<lambda>r. al_proposal_id r \<noteq> pid) (agent_logs st),
              scheduled_votes := filter (\<lambda>r. sv_proposal_id r \<noteq> pid) (scheduled_votes st)\<rparr>)"
  by (simp add: reset_agent_analysis_def resetAgentData_ok cancelScheduledVote_def
      delete_scheduled_votes_def)

lemma reset_agent_analysis_clears:
  assumes "proposalExists pid st"
  shows "filter (\<lambda>r. av_proposal_id r = pid) (agent_votes (snd (reset_agent_analysis NoFailure pid st))) = []"
    and "getAgentLogs pid (snd (reset_agent_analysis NoFailure pid st)) = []"
    and "active_votes pid (snd (reset_agent_analysis NoFailure pid st)) = []"
    and "proposals (snd (reset_agent_analysis NoFailure pid st)) = proposals st"
proof -
  note eq = reset_agent_analysis_ok [OF assms]
  show "filter (\<lambda>r. av_proposal_id r = pid) (agent_votes (snd (reset_agent_analysis NoFailure pid st))) = []"
    by (simp add: eq filter_filter_neg [of "\<lambda>r. av_proposal_id r = pid", simplified])
  show "getAgentLogs pid (snd (reset_agent_analysis NoFailure pid st)) = []"
    by (simp add: eq getAgentLogs_def filter_filter_neg [of "\<lambda>r. al_proposal_id r = pid", simplified])
  show "active_votes pid (snd (reset_agent_analysis NoFailure pid st)) = []"
    using filter_conj_neg [of "\<lambda>r. sv_proposal_id r = pid" "\<lambda>r. \<not> sv_executed r" "scheduled_votes st"]
    by (simp add: eq active_votes_def)
  show "proposals (snd (reset_agent_analysis NoFailure pid st)) = proposals st"
    by (simp add: eq)
qed

text \<open>The reset endpoint when a statement fails and the handler can roll back: the
  result \<open>false\<close> is dropped, the scheduled votes are deleted, and the answer is 200.\<close>

lemma reset_agent_analysis_rolled_back:
  "proposalExists pid st \<Longrightarrow>
   failure \<in> {DeleteVotesFails False, DeleteLogsFails False, CommitFails False} \<Longrightarrow>
   reset_agent_analysis failure pid st =
     (200, st\<lparr>scheduled_votes := filter (\<lambda>r. sv_proposal_id r \<noteq> pid) (scheduled_votes st)\<rparr>)"
  by (simp add: reset_agent_analysis_def resetAgentData_rolled_back cancelScheduledVote_def
      delete_scheduled_votes_def)

text \<open>
  \<^bold>\<open>C8\<close> fails on the code where the claim says that \<open>false\<close> is returned on any
  error, and where it says what the reset operation leaves.  The store is all or
  nothing, as claimed (\<open>resetAgentData_store\<close>).  But the handler runs \<open>ROLLBACK\<close>
  unguarded: when \<open>BEGIN TRANSACTION\<close> is the statement that fails, or when the failure
  of a later statement has ended the transaction, \<open>ROLLBACK\<close> raises and
  \<open>resetAgentData\<close> is left by that exception instead of returning \<open>false\<close>.  And the
  endpoint does not look at the result: when the second delete fails and is rolled back,
  the reset of proposal 42 answers 200 with the agent vote and both log entries of the
  proposal still in the store and its scheduled vote gone.
\<close>

theorem resetAgentData_rollback_raises:
  "resetAgentData BeginFails pid st = (Inl no_transaction, st) \<and>
   resetAgentData (DeleteVotesFails True) pid st = (Inl no_transaction, st) \<and>
   resetAgentData (DeleteLogsFails True) pid st = (Inl no_transaction, st) \<and>
   resetAgentData (CommitFails True) pid st = (Inl no_transaction, st) \<and>
   reset_agent_analysis BeginFails ''42'' db42 = (500, db42) \<and>
   resetAgentData (DeleteLogsFails False) ''42'' db42 = (Inr False, db42) \<and>
   reset_agent_analysis (DeleteLogsFails False) ''42'' db42 = (200, db42\<lparr>scheduled_votes := []\<rparr>) \<and>
   length (agent_votes (db42\<lparr>scheduled_votes := []\<rparr>)) = 1 \<and>
   length (getAgentLogs ''42'' (db42\<lparr>scheduled_votes := []\<rparr>)) = 2"
proof -
  have ex: "proposalExists ''42'' db42"
    by (simp add: proposalExists_def db42_def)
  have "reset_agent_analysis BeginFails ''42'' db42 = (500, db42)"
    by (simp add: reset_agent_analysis_def ex resetAgentData_raises)
  moreover have "reset_agent_analysis (DeleteLogsFails False) ''42'' db42 =
      (200, db42\<lparr>scheduled_votes := []\<rparr>)"
    by (simp add: reset_agent_analysis_rolled_back [OF ex]) (simp add: db42_def)
  moreover have "length (agent_votes (db42\<lparr>scheduled_votes := []\<rparr>)) = 1 \<and>
      length (getAgentLogs ''42'' (db42\<lparr>scheduled_votes := []\<rparr>)) = 2"
    by (simp add: db42_def getAgentLogs_def)
  ultimately show ?thesis
    by (simp add: resetAgentData_raises resetAgentData_rolled_back)
qed

section \<open>The analysis lock and the validation of the result\<close>

lemma log_to_simps:
  "analysisInProgress (log_to now pid rq rs a) = analysisInProgress a"
  "openaiClient (log_to now pid rq rs a) = openaiClient a"
  "agent_votes (store (log_to now pid rq rs a)) = agent_votes (store a)"
  "proposals (store (log_to now pid rq rs a)) = proposals (store a)"
  "scheduled_votes (store (log_to now pid rq rs a)) = scheduled_votes (store a)"
  "config (store (log_to now pid rq rs a)) = config (store a)"
  by (simp_all add: log_to_def logAgentCommunication_def Let_def)

lemma analyze_finish_unlocks: "\<not> analysisInProgress (snd (analyze_finish now pid response a))"
  by (simp add: analyze_finish_def Let_def log_to_simps
      split: model_response.split option.split vote_field.split)

lemma analyze_start_unlocks:
  "\<not> analysisInProgress a \<Longrightarrow> analyze_start now prepared pid a = (Some r, a') \<Longrightarrow>
     \<not> analysisInProgress a'"
  by (auto simp: analyze_start_def Let_def initModel_def log_to_simps split: if_splits sum.splits)

lemma analyze_start_awaiting:
  "analyze_start now prepared pid a = (None, a') \<Longrightarrow>
     \<not> analysisInProgress a \<and> analysisInProgress a' \<and> openaiClient a'"
  by (auto simp: analyze_start_def Let_def initModel_def log_to_simps split: if_splits sum.splits)

lemma analyze_start_busy:
  "analysisInProgress a \<Longrightarrow> analyze_start now prepared pid a = (Some no_result, a)"
  by (simp add: analyze_start_def)

lemma analyze_start_ready:
  "\<not> analysisInProgress a \<Longrightarrow> openaiClient a \<Longrightarrow>
     analyze_start now (Inr prompt) pid a =
       (None, log_to now pid ''OpenAI Input Prompt'' prompt (a\<lparr>analysisInProgress := True\<rparr>))"
  by (simp add: analyze_start_def Let_def)

lemma analyze_finish_client:
  "openaiClient (snd (analyze_finish now pid response a)) = openaiClient a"
  by (simp add: analyze_finish_def Let_def log_to_simps
      split: model_response.split option.split vote_field.split)

lemma analyzeProposal_unlocks:
  "\<not> analysisInProgress a \<Longrightarrow>
     \<not> analysisInProgress (snd (analyzeProposal now prepared pid response a))"
  by (cases "analyze_start now prepared pid a")
    (auto simp: analyzeProposal_def analyze_finish_unlocks split: option.split
      dest: analyze_start_unlocks)


lemma processProposal_busy:
  "analysisInProgress a \<Longrightarrow> processProposal js now prepared pid response a = a"
proof -
  assume busy: "analysisInProgress a"
  then have "analyzeProposal now prepared pid response a = (no_result, a)"
    by (simp add: analyzeProposal_def analyze_start_busy)
  then show ?thesis
    by (simp add: processProposal_def Let_def no_result_def)
qed

text \<open>
  With the database at hand for every log call: a call of \<open>analyzeProposal\<close> that finds
  the lock free leaves it free when it returns, whatever the configuration and whatever
  the reasoning service does (no client and no key, an exception while the prompt is
  assembled, an exception of the service, a result that cannot be parsed, an invalid vote
  value, a valid one).  A call that starts while the lock is held returns
  \<open>success = false\<close> at once and leaves the lock, the client and the store exactly as
  they were; \<open>processProposal\<close> around it writes nothing either.  While a call waits for
  the service the lock is held, so a second call made in between is such a call; once the
  first call has returned, a new call gets past the lock and sends its request.
\<close>

lemma analysis_lock_with_database:
  "(\<not> analysisInProgress a \<longrightarrow>
      \<not> analysisInProgress (snd (analyzeProposal now prepared pid response a))) \<and>
   (analysisInProgress a \<longrightarrow>
      analyze_start now prepared pid a = (Some no_result, a) \<and>
      analyzeProposal now prepared pid response a = (no_result, a) \<and>
      \<not> success no_result \<and>
      processProposal js now prepared pid response a = a) \<and>
   (analyze_start now prepared pid a = (None, a1) \<longrightarrow>
      analysisInProgress a1 \<and>
      analyze_start now2 prepared2 pid2 a1 = (Some no_result, a1) \<and>
      \<not> analysisInProgress (snd (analyze_finish now3 pid response a1)) \<and>
      fst (analyze_start now4 (Inr prompt4) pid4 (snd (analyze_finish now3 pid response a1))) = None)"
proof (intro conjI impI)
  assume "\<not> analysisInProgress a"
  then show "\<not> analysisInProgress (snd (analyzeProposal now prepared pid response a))"
    by (rule analyzeProposal_unlocks)
next
  assume busy: "analysisInProgress a"
  then show "analyze_start now prepared pid a = (Some no_result, a)"
    by (rule analyze_start_busy)
  then show "analyzeProposal now prepared pid response a = (no_result, a)"
    by (simp add: analyzeProposal_def)
  show "\<not> success no_result"
    by (simp add: no_result_def)
  from busy show "processProposal js now prepared pid response a = a"
    by (rule processProposal_busy)
next
  assume waits: "analyze_start now prepared pid a = (None, a1)"
  from analyze_start_awaiting [OF waits]
  have held: "analysisInProgress a1" and client: "openaiClient a1"
    by simp_all
  show "analysisInProgress a1"
    by (rule held)
  show "analyze_start now2 prepared2 pid2 a1 = (Some no_result, a1)"
    using held by (rule analyze_start_busy)
  show free: "\<not> analysisInProgress (snd (analyze_finish now3 pid response a1))"
    by (rule analyze_finish_unlocks)
  have "openaiClient (snd (analyze_finish now3 pid response a1))"
    using client by (simp add: analyze_finish_client)
  with free show "fst (analyze_start now4 (Inr prompt4) pid4 (snd (analyze_finish now3 pid response a1))) = None"
    by (simp add: analyze_start_ready)
qed

text \<open>When the database opens for every log call, the general functions are the ones
  above.\<close>

lemma try_log_opens: "try_log opens now pid rq rs a = Inr (log_to now pid rq rs a)"
  by (simp add: try_log_def opens_def)

lemma analyze_start_db_opens:
  "analyze_start_db opens now prepared pid a =
     (case fst (analyze_start now prepared pid a) of Some r \<Rightarrow> Returned r | None \<Rightarrow> Awaiting,
      snd (analyze_start now prepared pid a))"
  by (simp add: analyze_start_db_def analyze_start_def initModel_db_def outer_catch_def
      try_log_opens opens_def Let_def split: sum.split)

lemma analyze_finish_db_opens:
  "analyze_finish_db opens now pid response a =
     (Returned (fst (analyze_finish now pid response a)), snd (analyze_finish now pid response a))"
  by (simp add: analyze_finish_db_def analyze_finish_def refuse_response_def inner_catch_def
      outer_catch_def try_log_opens Let_def
      split: model_response.split option.split vote_field.split)

text \<open>Each handler releases the lock when it returns and leaves it as it is when its
  log call raises.\<close>

lemma outer_catch_lock:
  "analysisInProgress (snd (outer_catch fault now pid msg a)) =
     (case fst (outer_catch fault now pid msg a) of
        Threw e \<Rightarrow> analysisInProgress a | Returned r \<Rightarrow> False | Awaiting \<Rightarrow> False)"
  by (simp add: outer_catch_def try_log_def split: option.split)

lemma inner_catch_lock:
  "analysisInProgress (snd (inner_catch fault now pid msg a)) =
     (case fst (inner_catch fault now pid msg a) of
        Threw e \<Rightarrow> analysisInProgress a | Returned r \<Rightarrow> False | Awaiting \<Rightarrow> False)"
  by (simp add: inner_catch_def try_log_def outer_catch_lock split: option.split)

lemma refuse_response_lock:
  "analysisInProgress (snd (refuse_response fault now pid logged why a)) =
     (case fst (refuse_response fault now pid logged why a) of
        Threw e \<Rightarrow> analysisInProgress a | Returned r \<Rightarrow> False | Awaiting \<Rightarrow> False)"
  by (simp add: refuse_response_def try_log_def inner_catch_lock split: option.split)

lemma analyze_finish_db_lock:
  "analysisInProgress (snd (analyze_finish_db fault now pid response a)) =
     (case fst (analyze_finish_db fault now pid response a) of
        Threw e \<Rightarrow> analysisInProgress a | Returned r \<Rightarrow> False | Awaiting \<Rightarrow> False)"
proof (cases response)
  case (ServiceThrows msg)
  then show ?thesis
    by (simp add: analyze_finish_db_def outer_catch_lock)
next
  case (Responded body parsedResult)
  show ?thesis
  proof (cases "fault ''OpenAI Complete Response''")
    case (Some e)
    with Responded show ?thesis
      by (simp add: analyze_finish_db_def try_log_def outer_catch_lock)
  next
    case None
    have held: "analysisInProgress (log_to now pid ''OpenAI Complete Response'' body a) =
        analysisInProgress a"
      by (simp add: log_to_simps)
    from Responded None show ?thesis
      by (simp add: analyze_finish_db_def try_log_def refuse_response_lock inner_catch_lock held
          split: option.split vote_field.split outcome.split)
  qed
qed

lemma outer_catch_raises:
  "fault ''Error during analysis'' = Some e \<Longrightarrow> outer_catch fault now pid msg a = (Threw e, a)"
  by (simp add: outer_catch_def try_log_def)

text \<open>
  \<^bold>\<open>C1\<close> fails on the code.  Every path of \<open>analyzeProposal\<close> that fails writes its
  log entry before it releases the lock, and the log call of the outer \<open>catch\<close> is
  guarded by nothing.  When the database cannot be opened there, the exception leaves
  \<open>analyzeProposal\<close> with the lock held, and every later call is dropped at the lock.
  The first call of a process, on proposal 42, reaches the service and waits
  (\<open>waiting42\<close>); the database becomes unavailable; the service raises, or answers with
  the vote value \<open>maybe\<close>; the call is left by the exception of the log call, in the
  state in which it waited, the lock held; a call on proposal 43 made afterwards, with
  the database at hand again, returns \<open>success = false\<close> without a request to the
  service.  In general, the second part of a call ends with the lock released when it
  returns, and with the lock as it found it when an exception leaves it.
\<close>

theorem analysis_lock_left_held:
  "analyze_start_db opens 1000 (Inr ''Analyze 42'') ''42'' agent0 = (Awaiting, waiting42) \<and>
   analysisInProgress waiting42 \<and>
   analyze_finish_db locked 1002 ''42'' (ServiceThrows ''fetch failed'') waiting42 =
     (Threw ''database is locked'', waiting42) \<and>
   analyze_finish_db locked 1002 ''42'' maybe_response waiting42 =
     (Threw ''database is locked'', waiting42) \<and>
   analyzeProposal_db opens 2000 (Inr ''Analyze 43'') ''43'' yes_response waiting42 =
     (Returned no_result, waiting42) \<and>
   analysisInProgress (snd (analyze_finish_db fault now pid response a)) =
     (case fst (analyze_finish_db fault now pid response a) of
        Threw e \<Rightarrow> analysisInProgress a | Returned r \<Rightarrow> False | Awaiting \<Rightarrow> False)"
proof (intro conjI)
  show "analyze_start_db opens 1000 (Inr ''Analyze 42'') ''42'' agent0 = (Awaiting, waiting42)"
    by (simp add: analyze_start_db_def initModel_db_def initModel_def try_log_opens opens_def
        getConfigValue_def log_to_def logAgentCommunication_def agent0_def waiting42_def db0_def
        Let_def)
  show held: "analysisInProgress waiting42"
    by (simp add: waiting42_def)
  have raises: "outer_catch locked now pid msg a = (Threw ''database is locked'', a)" for now pid msg a
    by (rule outer_catch_raises) (simp add: locked_def)
  show "analyze_finish_db locked 1002 ''42'' (ServiceThrows ''fetch failed'') waiting42 =
      (Threw ''database is locked'', waiting42)"
    by (simp add: analyze_finish_db_def raises)
  show "analyze_finish_db locked 1002 ''42'' maybe_response waiting42 =
      (Threw ''database is locked'', waiting42)"
    by (simp add: analyze_finish_db_def maybe_response_def try_log_def locked_def raises)
  show "analyzeProposal_db opens 2000 (Inr ''Analyze 43'') ''43'' yes_response waiting42 =
      (Returned no_result, waiting42)"
    using held by (simp add: analyzeProposal_db_def analyze_start_db_def)
  show "analysisInProgress (snd (analyze_finish_db fault now pid response a)) =
     (case fst (analyze_finish_db fault now pid response a) of
        Threw e \<Rightarrow> analysisInProgress a | Returned r \<Rightarrow> False | Awaiting \<Rightarrow> False)"
    by (rule analyze_finish_db_lock)
qed











section \<open>Eligibility looks at the ballots only\<close>

lemma ballot_list_has_iff: "ballot_list_has n l \<longleftrightarrow> (\<exists>b \<in> set l. neuronId b = Some n)"
  by (induction l) auto

lemma isEligible_iff: "isEligible n bs \<longleftrightarrow> among_ballots n bs"
proof (cases bs)
  case NoBallots
  then show ?thesis
    by (simp add: isEligible_def among_ballots_def)
next
  case (BallotMap m)
  have "(map_of m n = None) \<longleftrightarrow> n \<notin> fst ` set m"
    by (rule map_of_eq_None_iff)
  with BallotMap show ?thesis
    by (auto simp: isEligible_def among_ballots_def split: option.splits)
next
  case (BallotList l)
  then show ?thesis
    by (simp add: isEligible_def among_ballots_def ballot_list_has_iff)
qed

text \<open>
  \<^bold>\<open>C7\<close>, as the code has it.  With a neuron identifier given (a non-empty string),
  \<open>getUnanalyzedProposals\<close> returns a row of its query exactly when the identifier
  appears among the ballots of the row's payload, as a key of the object form or as the
  \<open>neuronId\<close> of a record of the array form.  The function takes no time and reads
  neither the proposal's timestamp nor its deadline.  Without an identifier every row of
  the query is returned.
\<close>

theorem eligible_iff_among_ballots:
  "(neuron \<noteq> [] \<longrightarrow>
      (r \<in> set (getUnanalyzedProposals js limit (Some neuron) st) \<longleftrightarrow>
         r \<in> set (unanalyzed_rows js limit st) \<and> among_ballots neuron (ballots (p_data r)))) \<and>
   getUnanalyzedProposals js limit (Some neuron) st =
     filter (\<lambda>r. neuron = [] \<or> among_ballots neuron (ballots (p_data r))) (unanalyzed_rows js limit st) \<and>
   getUnanalyzedProposals js limit None st = unanalyzed_rows js limit st"
  by (auto simp: getUnanalyzedProposals_def isEligible_iff)

theorem eligible_iff_among_ballots_witness:
  "getUnanalyzedProposals js0 1 (Some ''7'') db_unanalysed =
     [\<lparr>p_id = ''42'', p_data = payload42, p_processed = False\<rparr>] \<and>
   getUnanalyzedProposals js0 1 (Some ''8'') db_unanalysed = [] \<and>
   getUnanalyzedProposals js0 1 (Some ''7'') db42 = []"
proof -
  have rows: "unanalyzed_rows js0 1 db_unanalysed = [\<lparr>p_id = ''42'', p_data = payload42, p_processed = False\<rparr>]"
    by (simp add: unanalyzed_rows_def db_unanalysed_def db42_def)
  have none: "unanalyzed_rows js0 1 db42 = []"
    by (simp add: unanalyzed_rows_def db42_def)
  have b: "among_ballots ''7'' (ballots payload42)" "\<not> among_ballots ''8'' (ballots payload42)"
    by (simp_all add: among_ballots_def payload42_def)
  from eligible_iff_among_ballots [of "''7''" _ js0 1 db_unanalysed]
    eligible_iff_among_ballots [of "''8''" _ js0 1 db_unanalysed]
    eligible_iff_among_ballots [of "''7''" _ js0 1 db42]
    rows none b
  show ?thesis
    by simp
qed

text \<open>The claim as stated fails: at time 5000 the voting window of proposal 42 (opened at
  1000, 100 seconds long) has elapsed, and the proposal is still returned as eligible for
  neuron 7, which is among its ballots.\<close>

theorem eligible_after_window_elapsed:
  "\<not> voting_window_open 5000 payload42 \<and>
   getUnanalyzedProposals js0 1 (Some ''7'') db_unanalysed =
     [\<lparr>p_id = ''42'', p_data = payload42, p_processed = False\<rparr>]"
  by (simp add: voting_window_open_def getUnanalyzedProposals_def unanalyzed_rows_def
      db_unanalysed_def db42_def isEligible_def payload42_def)

section \<open>The sync cutoff never increases\<close>

lemma storeProposal_config: "config (storeProposal pid d st) = config st"
  by (simp add: storeProposal_def)

lemma process_batch_config:
  "config (batch_store (process_batch js m batch acc allEx st)) = config st"
  by (induction batch arbitrary: acc allEx st)
    (auto simp: Let_def storeProposal_config split: option.splits)


lemma acc_min_step:
  "acc_min (case acc of None \<Rightarrow> Some n | Some m \<Rightarrow> if n < m then Some n else Some m) ids =
   acc_min acc (n # ids)"
proof (cases acc)
  case None
  then show ?thesis by (simp add: acc_min_def)
next
  case (Some a)
  have m: "(if n < a then Some n else Some a) = Some (min n a)"
    by (auto simp: min_def)
  have "Min (insert (min n a) (set ids)) = Min (insert a (insert n (set ids)))"
  proof (cases "set ids = {}")
    case True
    then show ?thesis by (simp add: min.commute)
  next
    case False
    then show ?thesis
      by (simp only: Min_insert finite_insert finite_set insert_not_empty not_False_eq_True
          min.assoc min.commute min.left_commute)
  qed
  with Some show ?thesis
    by (simp only: acc_min_def option.case m list.set)
qed

lemma page_ids_Cons:
  "page_ids (p # ps) = (if id_truthy (np_id p) then the (np_id p) # page_ids ps else page_ids ps)"
  by (simp add: page_ids_def)

lemma process_batch_min:
  "\<not> truthy m \<Longrightarrow>
     \<exists>allEx' st'. process_batch js m batch acc allEx st =
        BatchDone (acc_min acc (page_ids batch)) allEx' False st'"
proof (induction batch arbitrary: acc allEx st)
  case Nil
  then show ?case
    by (cases acc) (simp_all add: acc_min_def page_ids_def)
next
  case (Cons p ps)
  show ?case
  proof (cases "np_id p")
    case None
    with Cons show ?thesis
      by (simp add: page_ids_Cons)
  next
    case (Some n)
    show ?thesis
    proof (cases "n = 0")
      case True
      with Some Cons show ?thesis
        by (simp add: page_ids_Cons)
    next
      case False
      with Some Cons.prems
        Cons.IH [OF Cons.prems, of "case acc of None \<Rightarrow> Some n | Some m \<Rightarrow> if n < m then Some n else Some m"]
      show ?thesis
        by (simp add: page_ids_Cons Let_def acc_min_step)
    qed
  qed
qed

lemma process_batch_config_done:
  "process_batch js m batch acc allEx st = BatchDone a b c st' \<Longrightarrow> config st' = config st"
  using process_batch_config [of js m batch acc allEx st] by simp

lemma process_batch_config_threw:
  "process_batch js m batch acc allEx st = BatchThrew st' \<Longrightarrow> config st' = config st"
  using process_batch_config [of js m batch acc allEx st] by simp

lemma update_unset:
  "\<not> truthy (getMinimumProposalId st) \<Longrightarrow>
     updateMinimumProposalId js pid st = Inr (setConfigValue ''minimum_proposal_id'' pid st)"
  by (cases "getMinimumProposalId st") (simp_all add: updateMinimumProposalId_def)

lemma fetch_config_kept:
  "truthy m \<or> 0 < k \<Longrightarrow> config (fetch_batches js net m before k st) = config st"
proof (induction js net m before k st rule: fetch_batches.induct)
  case (1 js net m before k st)
  show ?case
  proof (cases "net (Suc k) before")
    case ListThrows
    then show ?thesis
      by (subst fetch_batches.simps) simp
  next
    case (Page batch)
    show ?thesis
    proof (cases "batch = []")
      case True
      with Page show ?thesis
        by (subst fetch_batches.simps) simp
    next
      case False
      show ?thesis
      proof (cases "process_batch js m batch None True st")
        case (BatchThrew st1)
        with Page False process_batch_config_threw [OF BatchThrew] show ?thesis
          by (subst fetch_batches.simps) simp
      next
        case (BatchDone mn allEx reached st1)
        note cfg = process_batch_config_done [OF BatchDone]
        from "1.prems" have nowrite: "\<not> (mn \<noteq> None \<and> \<not> truthy m \<and> Suc k = 1)"
          by auto
        show ?thesis
        proof (cases "\<not> reached \<and> \<not> allEx \<and> id_truthy (np_id (last batch)) \<and> Suc k < 100")
          case True
          have "config (fetch_batches js net m (np_id (last batch)) (Suc k) st1) = config st1"
            using "1.IH" [OF Page False BatchDone, of st1] True nowrite
            by (auto simp del: One_nat_def)
          with Page False BatchDone True nowrite cfg show ?thesis
            by (subst fetch_batches.simps) (auto simp del: One_nat_def)
        next
          case False2: False
          with Page False BatchDone nowrite cfg show ?thesis
            by (subst fetch_batches.simps) (auto simp del: One_nat_def)
        qed
      qed
    qed
  qed
qed

lemma getMinimum_set:
  "getMinimumProposalId (setConfigValue ''minimum_proposal_id'' v st) = Some v"
  by (simp add: getMinimumProposalId_def getConfigValue_def setConfigValue_def update_conv')

lemma getMinimum_config:
  "config st' = config st \<Longrightarrow> getMinimumProposalId st' = getMinimumProposalId st"
  by (simp add: getMinimumProposalId_def getConfigValue_def)

lemma first_run_config:
  assumes unset: "\<not> truthy (getMinimumProposalId st)"
  shows "config (retrieveAndStoreProposals js net st) =
     (case net (Suc 0) None of
        ListThrows \<Rightarrow> config st
      | Page batch \<Rightarrow>
          (case lowest_id batch of
             None \<Rightarrow> config st
           | Some mn \<Rightarrow> AList.update ''minimum_proposal_id'' (bigint_toString js mn) (config st)))"
proof (cases "net (Suc 0) None")
  case ListThrows
  then show ?thesis
    by (simp add: retrieveAndStoreProposals_def fetch_batches.simps [of _ _ _ _ 0])
next
  case (Page batch)
  show ?thesis
  proof (cases "batch = []")
    case True
    with Page show ?thesis
      by (simp add: retrieveAndStoreProposals_def fetch_batches.simps [of _ _ _ _ 0]
          lowest_id_def page_ids_def)
  next
    case False
    from process_batch_min [OF unset, of js batch None True st]
    obtain allEx st1 where pb: "process_batch js (getMinimumProposalId st) batch None True st =
        BatchDone (lowest_id batch) allEx False st1"
      by (auto simp: acc_min_def lowest_id_def)
    note cfg = process_batch_config_done [OF pb]
    show ?thesis
    proof (cases "lowest_id batch")
      case None
      have "config (fetch_batches js net (getMinimumProposalId st) before (Suc 0) st1) = config st1" for before
        by (rule fetch_config_kept) simp
      with Page False pb None cfg show ?thesis
        by (simp add: retrieveAndStoreProposals_def fetch_batches.simps [of _ _ _ _ 0])
    next
      case (Some mn)
      define st2 where "st2 = setConfigValue ''minimum_proposal_id'' (bigint_toString js mn) st1"
      have "\<not> truthy (getMinimumProposalId st1)"
        using unset getMinimum_config [OF cfg] by simp
      then have upd: "updateMinimumProposalId js (bigint_toString js mn) st1 = Inr st2"
        by (simp add: update_unset st2_def)
      have keep: "config (fetch_batches js net (getMinimumProposalId st) before (Suc 0) st2) = config st2" for before
        by (rule fetch_config_kept) simp
      have c2: "config st2 = AList.update ''minimum_proposal_id'' (bigint_toString js mn) (config st)"
        by (simp add: st2_def setConfigValue_def cfg)
      from Page False pb Some upd keep c2 unset show ?thesis
        by (simp add: retrieveAndStoreProposals_def fetch_batches.simps [of _ _ _ _ 0])
    qed
  qed
qed

lemma update_replaces_smaller:
  assumes "getMinimumProposalId st = Some cur" and "cur \<noteq> []"
    and "updateMinimumProposalId js pid st = Inr st'"
  shows "st' = st \<or>
     (st' = setConfigValue ''minimum_proposal_id'' pid st \<and>
      (\<exists>n c. BigInt js pid = Some n \<and> BigInt js cur = Some c \<and> n < c))"
  using assms
  by (auto simp: updateMinimumProposalId_def split: option.splits if_splits)

lemma sync_keeps_cutoff:
  "truthy (getMinimumProposalId st) \<Longrightarrow> config (retrieveAndStoreProposals js net st) = config st"
  by (simp add: retrieveAndStoreProposals_def fetch_config_kept)

lemma cutoff_op_step:
  assumes cur: "getMinimumProposalId st = Some cur" "cur \<noteq> []" and given: "id_given x"
  shows "\<exists>cur'. getMinimumProposalId (apply_cutoff_op js x st) = Some cur' \<and> cur' \<noteq> [] \<and>
     (cur' = cur \<or> (\<exists>n c. BigInt js cur' = Some n \<and> BigInt js cur = Some c \<and> n < c))"
proof (cases x)
  case (SyncRun net)
  from cur have "truthy (getMinimumProposalId st)"
    by simp
  from getMinimum_config [OF sync_keeps_cutoff [OF this, of js net]] SyncRun cur show ?thesis
    by simp
next
  case (UpdateMinimum pid)
  with given have ne: "pid \<noteq> []"
    by simp
  show ?thesis
  proof (cases "updateMinimumProposalId js pid st")
    case (Inl e)
    with UpdateMinimum cur show ?thesis
      by simp
  next
    case (Inr st')
    from update_replaces_smaller [OF cur Inr] UpdateMinimum Inr cur ne show ?thesis
      by (auto simp: getMinimum_set)
  qed
qed

lemma cutoff_ops_monotone:
  "getMinimumProposalId st = Some cur \<Longrightarrow> cur \<noteq> [] \<Longrightarrow> \<forall>x \<in> set ops. id_given x \<Longrightarrow>
   \<exists>cur'. getMinimumProposalId (apply_cutoff_ops js ops st) = Some cur' \<and> cur' \<noteq> [] \<and>
     (cur' = cur \<or> (\<exists>n c. BigInt js cur' = Some n \<and> BigInt js cur = Some c \<and> n < c))"
proof (induction ops arbitrary: st cur)
  case Nil
  then show ?case
    by simp
next
  case (Cons x xs)
  from Cons.prems have gx: "id_given x" and gxs: "\<forall>x \<in> set xs. id_given x"
    by simp_all
  from cutoff_op_step [OF Cons.prems(1) Cons.prems(2) gx, of js]
  obtain c1 where c1: "getMinimumProposalId (apply_cutoff_op js x st) = Some c1" "c1 \<noteq> []"
    and rel1: "c1 = cur \<or> (\<exists>n c. BigInt js c1 = Some n \<and> BigInt js cur = Some c \<and> n < c)"
    by blast
  from Cons.IH [OF c1 gxs]
  obtain c2 where c2: "getMinimumProposalId (apply_cutoff_ops js xs (apply_cutoff_op js x st)) = Some c2"
      "c2 \<noteq> []"
    and rel2: "c2 = c1 \<or> (\<exists>n c. BigInt js c2 = Some n \<and> BigInt js c1 = Some c \<and> n < c)"
    by blast
  from rel1 rel2 have "c2 = cur \<or> (\<exists>n c. BigInt js c2 = Some n \<and> BigInt js cur = Some c \<and> n < c)"
    by force
  with c2 show ?case
    by simp
qed


text \<open>
  \<^bold>\<open>C6.\<close>  The cutoff is set when the config holds a non-empty text under
  \<open>minimum_proposal_id\<close>.
  \<^item> When \<open>updateMinimumProposalId\<close> replaces a cutoff that is set by another value,
    the new value is the identifier it was called with, and \<open>BigInt\<close> reads it as a
    number strictly below the number it reads the old value as: the comparison is on
    integers, not on texts.
  \<^item> A sync run that starts with the cutoff set leaves the whole config as it was.
  \<^item> A sync run that starts with no cutoff sets the cutoff to the text of the lowest id
    of the first page it is answered, and changes nothing else of the config; when the
    first request raises or its page has no id, the config stays as it was.
  \<^item> Along any history of sync runs and direct calls with identifiers (non-empty
    texts), starting with the cutoff set: the cutoff stays set, and it is either the text
    it was or a text that reads as a strictly smaller number; as a number it never
    increases.
\<close>

theorem cutoff_never_increases:
  "(getMinimumProposalId st = Some cur \<and> cur \<noteq> [] \<and>
    updateMinimumProposalId js proposalId st = Inr st' \<and> getMinimumProposalId st' \<noteq> Some cur \<longrightarrow>
      getMinimumProposalId st' = Some proposalId \<and>
      (\<exists>n c. BigInt js proposalId = Some n \<and> BigInt js cur = Some c \<and> n < c)) \<and>
   (truthy (getMinimumProposalId st) \<longrightarrow>
      config (retrieveAndStoreProposals js net st) = config st) \<and>
   (\<not> truthy (getMinimumProposalId st) \<longrightarrow>
      config (retrieveAndStoreProposals js net st) =
        (case net (Suc 0) None of
           ListThrows \<Rightarrow> config st
         | Page batch \<Rightarrow>
             (case lowest_id batch of
                None \<Rightarrow> config st
              | Some mn \<Rightarrow> AList.update ''minimum_proposal_id'' (bigint_toString js mn) (config st)))) \<and>
   (getMinimumProposalId st = Some cur \<and> cur \<noteq> [] \<and> (\<forall>x \<in> set ops. id_given x) \<longrightarrow>
      (\<exists>cur'. getMinimumProposalId (apply_cutoff_ops js ops st) = Some cur' \<and> cur' \<noteq> [] \<and>
         (cur' = cur \<or> (\<exists>n c. BigInt js cur' = Some n \<and> BigInt js cur = Some c \<and> n < c)))) \<and>
   (cutoff_value js st = Some c0 \<and> (\<forall>x \<in> set ops. id_given x) \<longrightarrow>
      (\<exists>c1. cutoff_value js (apply_cutoff_ops js ops st) = Some c1 \<and> c1 \<le> c0))"
proof (intro conjI impI)
  assume a: "getMinimumProposalId st = Some cur \<and> cur \<noteq> [] \<and>
    updateMinimumProposalId js proposalId st = Inr st' \<and> getMinimumProposalId st' \<noteq> Some cur"
  then have "st' = st \<or>
     (st' = setConfigValue ''minimum_proposal_id'' proposalId st \<and>
      (\<exists>n c. BigInt js proposalId = Some n \<and> BigInt js cur = Some c \<and> n < c))"
    by (intro update_replaces_smaller) simp_all
  with a show "getMinimumProposalId st' = Some proposalId"
    and "\<exists>n c. BigInt js proposalId = Some n \<and> BigInt js cur = Some c \<and> n < c"
    by (auto simp: getMinimum_set)
next
  assume "truthy (getMinimumProposalId st)"
  then show "config (retrieveAndStoreProposals js net st) = config st"
    by (rule sync_keeps_cutoff)
next
  assume "\<not> truthy (getMinimumProposalId st)"
  then show "config (retrieveAndStoreProposals js net st) =
        (case net (Suc 0) None of
           ListThrows \<Rightarrow> config st
         | Page batch \<Rightarrow>
             (case lowest_id batch of
                None \<Rightarrow> config st
              | Some mn \<Rightarrow> AList.update ''minimum_proposal_id'' (bigint_toString js mn) (config st)))"
    by (rule first_run_config)
next
  assume "getMinimumProposalId st = Some cur \<and> cur \<noteq> [] \<and> (\<forall>x \<in> set ops. id_given x)"
  then show "\<exists>cur'. getMinimumProposalId (apply_cutoff_ops js ops st) = Some cur' \<and> cur' \<noteq> [] \<and>
         (cur' = cur \<or> (\<exists>n c. BigInt js cur' = Some n \<and> BigInt js cur = Some c \<and> n < c))"
    by (intro cutoff_ops_monotone) simp_all
next
  assume a: "cutoff_value js st = Some c0 \<and> (\<forall>x \<in> set ops. id_given x)"
  then obtain s where s: "getMinimumProposalId st = Some s" "s \<noteq> []" "BigInt js s = Some c0"
    by (auto simp: cutoff_value_def split: option.splits if_splits)
  from a have "\<forall>x \<in> set ops. id_given x"
    by simp
  from cutoff_ops_monotone [OF s(1) s(2) this, of js]
  obtain s' where s': "getMinimumProposalId (apply_cutoff_ops js ops st) = Some s'" "s' \<noteq> []"
    and rel: "s' = s \<or> (\<exists>n c. BigInt js s' = Some n \<and> BigInt js s = Some c \<and> n < c)"
    by blast
  from rel s(3) obtain c1 where "BigInt js s' = Some c1" "c1 \<le> c0"
    by auto
  with s' show "\<exists>c1. cutoff_value js (apply_cutoff_ops js ops st) = Some c1 \<and> c1 \<le> c0"
    by (simp add: cutoff_value_def)
qed



lemma decimal_examples:
  "decimal ''9'' = Some 9" "decimal ''10'' = Some 10" "decimal ''7'' = Some 7"
  by (simp_all add: decimal_def)

text \<open>With the cutoff at 9, the identifier 10 is refused although its text sorts before
  \<open>9\<close>, and 7 is taken; a sync run then leaves the cutoff alone.  A first sync run on
  the empty store sets the cutoff to 28, the lowest id of its first page.\<close>

theorem cutoff_never_increases_witness:
  "cutoff_value js0 db9 = Some 9 \<and>
   getMinimumProposalId (apply_cutoff_ops js0 [UpdateMinimum ''10''] db9) = Some ''9'' \<and>
   getMinimumProposalId (apply_cutoff_ops js0 [UpdateMinimum ''10'', UpdateMinimum ''7''] db9) = Some ''7'' \<and>
   config (retrieveAndStoreProposals js0 net3 db9) = config db9 \<and>
   lowest_id [\<lparr>np_id = Some 30, np_info = payload42\<rparr>, \<lparr>np_id = Some 29, np_info = payload42\<rparr>,
              \<lparr>np_id = Some 28, np_info = payload42\<rparr>] = Some 28 \<and>
   config (retrieveAndStoreProposals js0 net3 db0) = [(''minimum_proposal_id'', ''28'')]"
proof -
  have cur: "getMinimumProposalId db9 = Some ''9''"
    by (simp add: getMinimumProposalId_def getConfigValue_def db9_def db0_def)
  have v: "cutoff_value js0 db9 = Some 9"
    by (simp add: cutoff_value_def cur js0_def decimal_examples)
  have u1: "updateMinimumProposalId js0 ''10'' db9 = Inr db9"
    by (simp add: updateMinimumProposalId_def cur js0_def decimal_examples)
  have u2: "updateMinimumProposalId js0 ''7'' db9 = Inr (setConfigValue ''minimum_proposal_id'' ''7'' db9)"
    by (simp add: updateMinimumProposalId_def cur js0_def decimal_examples)
  have low: "lowest_id [\<lparr>np_id = Some 30, np_info = payload42\<rparr>, \<lparr>np_id = Some 29, np_info = payload42\<rparr>,
              \<lparr>np_id = Some 28, np_info = payload42\<rparr>] = Some 28"
    by (simp add: lowest_id_def page_ids_def)
  have unset: "\<not> truthy (getMinimumProposalId db0)"
    by (simp add: getMinimumProposalId_def getConfigValue_def db0_def)
  have s28: "show_nat 28 = ''28''"
    by code_simp
  have set9: "truthy (getMinimumProposalId db9)"
    by (simp add: cur)
  from cutoff_never_increases [where st = db0 and js = js0 and net = net3,
      THEN conjunct2, THEN conjunct2, THEN conjunct1, THEN mp, OF unset]
  have first: "config (retrieveAndStoreProposals js0 net3 db0) = [(''minimum_proposal_id'', ''28'')]"
    by (simp add: net3_def low js0_def s28 db0_def)
  from cutoff_never_increases [where st = db9 and js = js0 and net = net3,
      THEN conjunct2, THEN conjunct1, THEN mp, OF set9]
  have kept: "config (retrieveAndStoreProposals js0 net3 db9) = config db9" .
  from v u1 u2 low first kept show ?thesis
    by (simp add: getMinimum_set cur)
qed

section \<open>The sweep over the due votes\<close>

lemma refresh_sv:
  "scheduled_votes (refresh_after_error js gov now pid st) = scheduled_votes st"
  by (simp add: refresh_after_error_def storeProposal_def ensure_sv
      split: option.split fetch.split)

lemma vote_failed_sv:
  "scheduled_votes (vote_failed js gov now v e st) =
     map (\<lambda>r. if sv_id r = sv_id v then error_row now e r else r) (scheduled_votes st)"
  by (simp add: vote_failed_def refresh_sv recordVoteError_def error_row_def)

lemma markVoteExecuted_sv:
  "scheduled_votes (markVoteExecuted now i st) =
     map (\<lambda>r. if sv_id r = i then mark_row now r else r) (scheduled_votes st)"
  by (simp add: markVoteExecuted_def mark_row_def)

lemma mark_row_id: "sv_id (mark_row now r) = sv_id r"
  by (simp add: mark_row_def)

lemma error_row_id: "sv_id (error_row now e r) = sv_id r"
  by (simp add: error_row_def)

lemma row_after_outcome:
  "cast_outcome_of js gov neuron v = CastSucceeded \<Longrightarrow>
     row_after js gov neuron now v = (\<lambda>r. if sv_id r = sv_id v then mark_row now r else r)"
  "cast_outcome_of js gov neuron v = CastFailed e \<Longrightarrow>
     row_after js gov neuron now v = (\<lambda>r. if sv_id r = sv_id v then error_row now e r else r)"
  "cast_outcome_of js gov neuron v = RefreshThrew e \<Longrightarrow>
     row_after js gov neuron now v =
       (\<lambda>r. if sv_id r = sv_id v then error_row now e (mark_row now r) else r)"
  by (simp_all add: row_after_def fun_eq_iff)

lemma execute_vote_sv:
  "scheduled_votes (fst (execute_vote js gov neuron now v acc)) =
     map (row_after js gov neuron now v) (scheduled_votes (fst acc))"
proof -
  have two: "map (\<lambda>r. if sv_id r = sv_id v then error_row now e r else r)
        (map (\<lambda>r. if sv_id r = sv_id v then mark_row now r else r) rows) =
      map (\<lambda>r. if sv_id r = sv_id v then error_row now e (mark_row now r) else r) rows" for e rows
    by (simp add: mark_row_id)
  show ?thesis
  proof (cases "BigInt js (sv_proposal_id v)")
    case None
    then have "cast_outcome_of js gov neuron v = CastFailed (bigint_syntax_error (sv_proposal_id v))"
      by (simp add: cast_outcome_of_def)
    from row_after_outcome(2) [OF this] None show ?thesis
      by (simp add: execute_vote_def Let_def vote_failed_sv ensure_sv)
  next
    case (Some n)
    show ?thesis
    proof (cases "gov_registerVote gov neuron n (if sv_vote_type v = ''yes'' then 1 else 2)")
      case refused: (Some e)
      with Some have "cast_outcome_of js gov neuron v = CastFailed e"
        by (simp add: cast_outcome_of_def split del: if_split)
      from row_after_outcome(2) [OF this] Some refused show ?thesis
        by (simp add: execute_vote_def Let_def vote_failed_sv ensure_sv split del: if_split)
    next
      case cast: None
      show ?thesis
      proof (cases "gov_getProposal gov 0 n")
        case (FetchThrows e)
        with Some cast have "cast_outcome_of js gov neuron v = RefreshThrew e"
          by (simp add: cast_outcome_of_def split del: if_split)
        from row_after_outcome(3) [OF this] Some cast FetchThrows show ?thesis
          by (auto simp add: execute_vote_def Let_def vote_failed_sv markVoteExecuted_sv ensure_sv
              mark_row_id)
      next
        case FetchNone
        with Some cast have "cast_outcome_of js gov neuron v = CastSucceeded"
          by (simp add: cast_outcome_of_def split del: if_split)
        from row_after_outcome(1) [OF this] Some cast FetchNone show ?thesis
          by (simp add: execute_vote_def Let_def markVoteExecuted_sv ensure_sv split del: if_split)
      next
        case (Fetched p)
        with Some cast have "cast_outcome_of js gov neuron v = CastSucceeded"
          by (simp add: cast_outcome_of_def split del: if_split)
        from row_after_outcome(1) [OF this] Some cast Fetched show ?thesis
          by (simp add: execute_vote_def Let_def markVoteExecuted_sv storeProposal_def ensure_sv
              split del: if_split)
      qed
    qed
  qed
qed

lemma execute_votes_sv:
  "scheduled_votes (fst (execute_votes js gov neuron now vs acc)) =
     map (rows_after js gov neuron now vs) (scheduled_votes (fst acc))"
proof (induction vs arbitrary: acc)
  case Nil
  have "map (rows_after js gov neuron now []) rows = rows" for rows
    by (rule map_idI) simp
  then show ?case
    by simp
next
  case (Cons v vs)
  have "map (rows_after js gov neuron now (v # vs)) rows =
      map (rows_after js gov neuron now vs) (map (row_after js gov neuron now v) rows)" for rows
    by simp
  with Cons show ?case
    by (simp add: execute_vote_sv)
qed

lemma row_after_id: "sv_id (row_after js gov neuron now v r) = sv_id r"
  by (simp add: row_after_def mark_row_id error_row_id split: cast_outcome.split)

lemma rows_after_id: "sv_id (rows_after js gov neuron now vs r) = sv_id r"
  by (induction vs arbitrary: r) (simp_all add: row_after_id)

lemma rows_after_other:
  "sv_id r \<notin> sv_id ` set vs \<Longrightarrow> rows_after js gov neuron now vs r = r"
  by (induction vs arbitrary: r) (auto simp: row_after_def)

lemma rows_after_own:
  "distinct (map sv_id vs) \<Longrightarrow> v \<in> set vs \<Longrightarrow> sv_id r = sv_id v \<Longrightarrow>
     rows_after js gov neuron now vs r = row_after js gov neuron now v r"
proof (induction vs arbitrary: r)
  case Nil
  then show ?case by simp
next
  case (Cons a vs)
  show ?case
  proof (cases "a = v")
    case True
    with Cons.prems have "sv_id (row_after js gov neuron now v r) \<notin> sv_id ` set vs"
      by (simp add: row_after_id)
    with True show ?thesis
      by (simp add: rows_after_other)
  next
    case False
    with Cons.prems have v: "v \<in> set vs" and ne: "sv_id a \<noteq> sv_id v"
      by auto
    from ne Cons.prems(3) have "row_after js gov neuron now a r = r"
      by (simp add: row_after_def)
    with Cons.IH [of r] Cons.prems v show ?thesis
      by simp
  qed
qed

lemma row_after_executed: "sv_id r = sv_id v \<Longrightarrow> sv_executed (row_after js gov neuron now v r)"
  by (simp add: row_after_def mark_row_def error_row_def split: cast_outcome.split)

lemma filter_by_key:
  "distinct (map f xs) \<Longrightarrow> x \<in> set xs \<Longrightarrow> filter (\<lambda>y. f y = f x) xs = [x]"
proof (induction xs)
  case Nil
  then show ?case by simp
next
  case (Cons a xs)
  show ?case
  proof (cases "a = x")
    case True
    with Cons.prems have "f x \<notin> f ` set xs"
      by simp
    then have "\<forall>y \<in> set xs. f y \<noteq> f x"
      by (metis imageI)
    then have "filter (\<lambda>y. f y = f x) xs = []"
      by (simp add: filter_empty_conv)
    with True show ?thesis by simp
  next
    case False
    with Cons.prems have "x \<in> set xs" "f a \<noteq> f x"
      by auto
    with Cons show ?thesis by simp
  qed
qed

lemma proposalExists_cong:
  "proposals st' = proposals st \<Longrightarrow> proposalExists q st' = proposalExists q st"
  by (simp add: proposalExists_def)

lemma storeProposal_exists:
  "proposalExists pid (storeProposal pid d st)"
  "proposalExists q st \<Longrightarrow> proposalExists q (storeProposal pid d st)"
  by (simp_all add: storeProposal_def proposalExists_upsert proposalExists_upsert_other)

lemma refresh_exists:
  "proposalExists q st \<Longrightarrow> proposalExists q (refresh_after_error js gov now pid st)"
  by (simp add: refresh_after_error_def storeProposal_exists ensure_keeps
      split: option.split fetch.split)

lemma vote_failed_exists:
  "proposalExists q st \<Longrightarrow> proposalExists q (vote_failed js gov now v e st)"
proof -
  assume ex: "proposalExists q st"
  have "proposalExists q (recordVoteError now (sv_id v) (thrown_message e) (Some (thrown_details e)) st)"
    using ex by (simp add: proposalExists_def recordVoteError_def)
  then show ?thesis
    by (simp add: vote_failed_def refresh_exists)
qed

lemma markVoteExecuted_exists:
  "proposalExists q st \<Longrightarrow> proposalExists q (markVoteExecuted now i st)"
  by (simp add: proposalExists_def markVoteExecuted_def)

lemma execute_vote_keeps:
  "proposalExists q (fst acc) \<Longrightarrow> proposalExists q (fst (execute_vote js gov neuron now v acc))"
  by (simp add: execute_vote_def Let_def vote_failed_exists markVoteExecuted_exists
      storeProposal_exists ensure_keeps split: option.split fetch.split split del: if_split)

lemma execute_vote_ensures:
  "proposalExists (sv_proposal_id v) (fst (execute_vote js gov neuron now v acc))"
  by (simp add: execute_vote_def Let_def vote_failed_exists markVoteExecuted_exists
      storeProposal_exists ensure_exists split: option.split fetch.split split del: if_split)

lemma execute_votes_keeps:
  "proposalExists q (fst acc) \<Longrightarrow> proposalExists q (fst (execute_votes js gov neuron now vs acc))"
  by (induction vs arbitrary: acc) (simp_all add: execute_vote_keeps)

lemma execute_votes_ensures:
  "v \<in> set vs \<Longrightarrow> proposalExists (sv_proposal_id v) (fst (execute_votes js gov neuron now vs acc))"
proof (induction vs arbitrary: acc)
  case Nil
  then show ?case by simp
next
  case (Cons a vs)
  show ?case
  proof (cases "v = a")
    case True
    then show ?thesis
      by (simp add: execute_votes_keeps execute_vote_ensures)
  next
    case False
    with Cons show ?thesis by simp
  qed
qed

lemma execute_vote_casts:
  "snd (execute_vote js gov neuron now v acc) =
     snd acc @ (if BigInt js (sv_proposal_id v) \<noteq> None then [sv_id v] else [])"
  by (simp add: execute_vote_def Let_def split: option.split fetch.split split del: if_split)

lemma execute_votes_casts:
  "snd (execute_votes js gov neuron now vs acc) =
     snd acc @ map sv_id (filter (\<lambda>v. BigInt js (sv_proposal_id v) \<noteq> None) vs)"
  by (induction vs arbitrary: acc) (simp_all add: execute_vote_casts)

lemma sweep_with_identity:
  "identity_available setupAgent st gov neuron \<Longrightarrow>
     processScheduledVotes js setupAgent now st =
       execute_votes js gov neuron now (getPendingVotes now st) (st, [])"
  by (auto simp: processScheduledVotes_def identity_available_def Let_def
      split: option.splits list.splits)

lemma sweep_nothing_due:
  "getPendingVotes now st = [] \<Longrightarrow> processScheduledVotes js setupAgent now st = (st, [])"
  by (simp add: processScheduledVotes_def)

lemma sweep_without_identity:
  "\<not> (\<exists>gov neuron. identity_available setupAgent st gov neuron) \<Longrightarrow>
     processScheduledVotes js setupAgent now st = (st, [])"
  by (auto simp: processScheduledVotes_def identity_available_def Let_def
      split: option.splits list.splits)

lemma pending_rows:
  "set (getPendingVotes now st) \<subseteq> set (scheduled_votes st)"
  "distinct (map sv_id (scheduled_votes st)) \<Longrightarrow> distinct (map sv_id (getPendingVotes now st))"
  by (auto simp: getPendingVotes_def distinct_map_filter)

lemma not_pending_untouched:
  assumes d: "distinct (map sv_id (scheduled_votes st))"
    and r: "r \<in> set (scheduled_votes st)" and np: "r \<notin> set (getPendingVotes now st)"
  shows "rows_after js gov neuron now (getPendingVotes now st) r = r"
proof (rule rows_after_other, rule notI)
  assume "sv_id r \<in> sv_id ` set (getPendingVotes now st)"
  then obtain p where p: "p \<in> set (getPendingVotes now st)" "sv_id p = sv_id r"
    by auto
  with pending_rows(1) [of now st] have "p \<in> set (scheduled_votes st)"
    by auto
  with d r p(2) have "p = r"
    by (meson distinct_map inj_onD)
  with p(1) np show False
    by simp
qed

lemma pending_row_executed:
  assumes d: "distinct (map sv_id (scheduled_votes st))" and v: "v \<in> set (getPendingVotes now st)"
  shows "rows_after js gov neuron now (getPendingVotes now st) v = row_after js gov neuron now v v"
  by (rule rows_after_own [OF pending_rows(2) [OF d] v]) simp

lemma sweep_frame:
  assumes d: "distinct (map sv_id (scheduled_votes st))"
    and r: "r \<in> set (scheduled_votes st)" and np: "r \<notin> set (getPendingVotes now st)"
  shows "r \<in> set (scheduled_votes (fst (processScheduledVotes js setupAgent now st)))"
proof (cases "\<exists>gov neuron. identity_available setupAgent st gov neuron")
  case True
  then obtain gov neuron where "identity_available setupAgent st gov neuron"
    by blast
  from sweep_with_identity [OF this]
  have "scheduled_votes (fst (processScheduledVotes js setupAgent now st)) =
      map (rows_after js gov neuron now (getPendingVotes now st)) (scheduled_votes st)"
    by (simp add: execute_votes_sv)
  moreover from r have "rows_after js gov neuron now (getPendingVotes now st) r \<in>
      set (map (rows_after js gov neuron now (getPendingVotes now st)) (scheduled_votes st))"
    by simp
  ultimately show ?thesis
    by (simp only: not_pending_untouched [OF d r np])
next
  case False
  from sweep_without_identity [OF this] r show ?thesis
    by simp
qed

lemma sweep_leaves_nothing_due:
  assumes d: "distinct (map sv_id (scheduled_votes st))"
    and ia: "identity_available setupAgent st gov neuron"
  shows "getPendingVotes now (fst (processScheduledVotes js setupAgent now st)) = []"
proof -
  let ?F = "rows_after js gov neuron now (getPendingVotes now st)"
  have rows: "scheduled_votes (fst (processScheduledVotes js setupAgent now st)) =
      map ?F (scheduled_votes st)"
    by (simp add: sweep_with_identity [OF ia] execute_votes_sv)
  have "\<not> (sv_scheduled_time (?F r) \<le> now \<and> \<not> sv_executed (?F r))"
    if r: "r \<in> set (scheduled_votes st)" for r
  proof (cases "r \<in> set (getPendingVotes now st)")
    case True
    from pending_row_executed [OF d True] show ?thesis
      by (simp add: row_after_executed)
  next
    case False
    from not_pending_untouched [OF d r False] False r show ?thesis
      by (simp add: getPendingVotes_def)
  qed
  then show ?thesis
    by (simp add: getPendingVotes_def rows filter_empty_conv)
qed

lemma sweep_row_of_due_vote:
  assumes d: "distinct (map sv_id (scheduled_votes st))"
    and ia: "identity_available setupAgent st gov neuron"
    and v: "v \<in> set (getPendingVotes now st)"
  shows "filter (\<lambda>r. sv_id r = sv_id v)
      (scheduled_votes (fst (processScheduledVotes js setupAgent now st))) =
      [row_after js gov neuron now v v]"
proof -
  let ?F = "rows_after js gov neuron now (getPendingVotes now st)"
  have rows: "scheduled_votes (fst (processScheduledVotes js setupAgent now st)) =
      map ?F (scheduled_votes st)"
    by (simp add: sweep_with_identity [OF ia] execute_votes_sv)
  from v pending_rows(1) [of now st] have vin: "v \<in> set (scheduled_votes st)"
    by auto
  have "filter (\<lambda>r. sv_id r = sv_id v) (map ?F (scheduled_votes st)) =
      map ?F (filter (\<lambda>r. sv_id r = sv_id v) (scheduled_votes st))"
    by (simp add: filter_map comp_def rows_after_id)
  also have "\<dots> = [?F v]"
    by (simp add: filter_by_key [OF d vin])
  finally show ?thesis
    by (simp add: rows pending_row_executed [OF d v])
qed

text \<open>
  \<^bold>\<open>C2\<close>, as the code has it.  The rows of \<open>scheduled_votes\<close> have distinct ids
  (the primary key).
  \<^item> Whatever the identity: a row that is not due is still in the table after the sweep,
    unchanged, and an executed row is never among the pending votes.
  \<^item> With the identity available (the authentication key is configured, the agent is
    built, the identity has a neuron): \<open>registerVote\<close> is called once for each due
    vote whose proposal id converts to a \<open>bigint\<close> and for no other; after the sweep
    no vote is due, so running it again at that time changes nothing and casts nothing;
    and for every due vote the proposal has a row in the repository and the vote's row is
    executed.  After a successful cast and a refresh that did not raise, the row is the
    old one with \<open>executed = 1\<close> and the execution time, its error fields untouched;
    after a failed cast it carries the error message, and the detail when that is not
    empty.
\<close>

theorem due_votes_executed_once:
  "distinct (map sv_id (scheduled_votes st)) \<longrightarrow>
     (\<forall>r \<in> set (scheduled_votes st). r \<notin> set (getPendingVotes now st) \<longrightarrow>
        r \<in> set (scheduled_votes (fst (processScheduledVotes js setupAgent now st)))) \<and>
     (\<forall>r \<in> set (scheduled_votes st). sv_executed r \<longrightarrow> r \<notin> set (getPendingVotes now st)) \<and>
     (identity_available setupAgent st gov neuron \<longrightarrow>
        snd (processScheduledVotes js setupAgent now st) =
          map sv_id (filter (\<lambda>v. BigInt js (sv_proposal_id v) \<noteq> None) (getPendingVotes now st)) \<and>
        distinct (snd (processScheduledVotes js setupAgent now st)) \<and>
        getPendingVotes now (fst (processScheduledVotes js setupAgent now st)) = [] \<and>
        processScheduledVotes js2 setupAgent2 now (fst (processScheduledVotes js setupAgent now st)) =
          (fst (processScheduledVotes js setupAgent now st), []) \<and>
        (\<forall>v \<in> set (getPendingVotes now st).
           proposalExists (sv_proposal_id v) (fst (processScheduledVotes js setupAgent now st)) \<and>
           (\<exists>r'. filter (\<lambda>r. sv_id r = sv_id v)
                    (scheduled_votes (fst (processScheduledVotes js setupAgent now st))) = [r'] \<and>
                 sv_executed r' \<and>
                 (cast_outcome_of js gov neuron v = CastSucceeded \<longrightarrow>
                    r' = v\<lparr>sv_executed := True, sv_executed_time := Some now\<rparr>) \<and>
                 (\<forall>e. cast_outcome_of js gov neuron v = CastFailed e \<longrightarrow>
                    r' = v\<lparr>sv_executed := True, sv_executed_time := Some now,
                           sv_error_message := Some (thrown_message e),
                           sv_error_details :=
                             (if thrown_details e = [] then None else Some (thrown_details e))\<rparr> \<and>
                    sv_error_message r' \<noteq> None))))"
proof (intro impI conjI ballI)
  fix r
  assume "distinct (map sv_id (scheduled_votes st))" "r \<in> set (scheduled_votes st)"
    "r \<notin> set (getPendingVotes now st)"
  then show "r \<in> set (scheduled_votes (fst (processScheduledVotes js setupAgent now st)))"
    by (rule sweep_frame)
next
  fix r :: scheduled_vote
  assume "sv_executed r"
  then show "r \<notin> set (getPendingVotes now st)"
    by (simp add: getPendingVotes_def)
next
  assume d: "distinct (map sv_id (scheduled_votes st))"
    and ia: "identity_available setupAgent st gov neuron"
  show casts: "snd (processScheduledVotes js setupAgent now st) =
      map sv_id (filter (\<lambda>v. BigInt js (sv_proposal_id v) \<noteq> None) (getPendingVotes now st))"
    by (simp add: sweep_with_identity [OF ia] execute_votes_casts)
  from pending_rows(2) [OF d, of now]
  show "distinct (snd (processScheduledVotes js setupAgent now st))"
    by (simp add: casts distinct_map_filter)
  show nothing: "getPendingVotes now (fst (processScheduledVotes js setupAgent now st)) = []"
    by (rule sweep_leaves_nothing_due [OF d ia])
  then show "processScheduledVotes js2 setupAgent2 now (fst (processScheduledVotes js setupAgent now st)) =
      (fst (processScheduledVotes js setupAgent now st), [])"
    by (rule sweep_nothing_due)
next
  fix v
  assume d: "distinct (map sv_id (scheduled_votes st))"
    and ia: "identity_available setupAgent st gov neuron"
    and v: "v \<in> set (getPendingVotes now st)"
  show "proposalExists (sv_proposal_id v) (fst (processScheduledVotes js setupAgent now st))"
    by (simp add: sweep_with_identity [OF ia] execute_votes_ensures [OF v])
  have row: "filter (\<lambda>r. sv_id r = sv_id v)
      (scheduled_votes (fst (processScheduledVotes js setupAgent now st))) =
      [row_after js gov neuron now v v]"
    by (rule sweep_row_of_due_vote [OF d ia v])
  have ex: "sv_executed (row_after js gov neuron now v v)"
    by (simp add: row_after_executed)
  have ok: "cast_outcome_of js gov neuron v = CastSucceeded \<longrightarrow>
      row_after js gov neuron now v v = v\<lparr>sv_executed := True, sv_executed_time := Some now\<rparr>"
    by (simp add: row_after_def mark_row_def)
  have failed: "\<forall>e. cast_outcome_of js gov neuron v = CastFailed e \<longrightarrow>
      row_after js gov neuron now v v =
        v\<lparr>sv_executed := True, sv_executed_time := Some now,
          sv_error_message := Some (thrown_message e),
          sv_error_details := (if thrown_details e = [] then None else Some (thrown_details e))\<rparr> \<and>
      sv_error_message (row_after js gov neuron now v v) \<noteq> None"
    by (simp add: row_after_def error_row_def)
  from row ex ok failed
  show "\<exists>r'. filter (\<lambda>r. sv_id r = sv_id v)
                    (scheduled_votes (fst (processScheduledVotes js setupAgent now st))) = [r'] \<and>
                 sv_executed r' \<and>
                 (cast_outcome_of js gov neuron v = CastSucceeded \<longrightarrow>
                    r' = v\<lparr>sv_executed := True, sv_executed_time := Some now\<rparr>) \<and>
                 (\<forall>e. cast_outcome_of js gov neuron v = CastFailed e \<longrightarrow>
                    r' = v\<lparr>sv_executed := True, sv_executed_time := Some now,
                           sv_error_message := Some (thrown_message e),
                           sv_error_details :=
                             (if thrown_details e = [] then None else Some (thrown_details e))\<rparr> \<and>
                    sv_error_message r' \<noteq> None)"
    by blast
qed

lemma decimal_999: "decimal ''999'' = Some 999"
  by (simp add: decimal_def)

text \<open>The scenario of the specification: the cast for proposal 999 is refused with
  \<open>not authorized\<close>; the row is executed and carries the message, the repository has a
  placeholder for 999, and a later sweep does nothing.\<close>

theorem due_votes_executed_once_witness:
  "getPendingVotes 200 db_due = [due_row] \<and>
   \<not> proposalExists ''999'' db_due \<and>
   proposalExists ''999'' (fst (processScheduledVotes js0 (\<lambda>key. Some gov_refuses) 200 db_due)) \<and>
   filter (\<lambda>r. sv_id r = 1)
     (scheduled_votes (fst (processScheduledVotes js0 (\<lambda>key. Some gov_refuses) 200 db_due))) =
     [due_row\<lparr>sv_executed := True, sv_executed_time := Some 200,
              sv_error_message := Some ''not authorized'', sv_error_details := Some ''{}''\<rparr>] \<and>
   snd (processScheduledVotes js0 (\<lambda>key. Some gov_refuses) 200 db_due) = [1] \<and>
   processScheduledVotes js0 (\<lambda>key. Some gov_refuses) 201
       (fst (processScheduledVotes js0 (\<lambda>key. Some gov_refuses) 200 db_due)) =
     (fst (processScheduledVotes js0 (\<lambda>key. Some gov_refuses) 200 db_due), [])"
proof -
  let ?st' = "fst (processScheduledVotes js0 (\<lambda>key. Some gov_refuses) 200 db_due)"
  have d: "distinct (map sv_id (scheduled_votes db_due))"
    by (simp add: db_due_def)
  have ia: "identity_available (\<lambda>key. Some gov_refuses) db_due gov_refuses 7"
    by (simp add: identity_available_def getConfigValue_def db_due_def db0_def gov_refuses_def)
  have pending: "getPendingVotes 200 db_due = [due_row]"
    by (simp add: getPendingVotes_def db_due_def due_row_def)
  have absent: "\<not> proposalExists ''999'' db_due"
    by (simp add: proposalExists_def db_due_def db0_def)
  have oc: "cast_outcome_of js0 gov_refuses 7 due_row = CastFailed not_authorized"
    by (simp add: cast_outcome_of_def js0_def due_row_def decimal_999 gov_refuses_def)
  have conv: "BigInt js0 (sv_proposal_id due_row) \<noteq> None"
    by (simp add: js0_def due_row_def decimal_999)
  note T = due_votes_executed_once [where st = db_due and now = 200 and js = js0
      and setupAgent = "\<lambda>key. Some gov_refuses" and gov = gov_refuses and neuron = 7
      and ?js2.0 = js0 and ?setupAgent2.0 = "\<lambda>key. Some gov_refuses",
      THEN mp, OF d, THEN conjunct2, THEN conjunct2, THEN mp, OF ia]
  from T pending conv have casts: "snd (processScheduledVotes js0 (\<lambda>key. Some gov_refuses) 200 db_due) = [1]"
    by (simp add: due_row_def)
  from T pending have ex: "proposalExists ''999'' ?st'"
    by (simp add: due_row_def)
  from T pending oc obtain r' where
    r': "filter (\<lambda>r. sv_id r = sv_id due_row) (scheduled_votes ?st') = [r']"
      "r' = due_row\<lparr>sv_executed := True, sv_executed_time := Some 200,
            sv_error_message := Some (thrown_message not_authorized),
            sv_error_details := (if thrown_details not_authorized = [] then None
                                 else Some (thrown_details not_authorized))\<rparr>"
    by auto
  then have row: "filter (\<lambda>r. sv_id r = 1) (scheduled_votes ?st') =
      [due_row\<lparr>sv_executed := True, sv_executed_time := Some 200,
              sv_error_message := Some ''not authorized'', sv_error_details := Some ''{}''\<rparr>]"
    by (simp add: due_row_def not_authorized_def)
  have "scheduled_votes ?st' = map (row_after js0 gov_refuses 7 200 due_row) (scheduled_votes db_due)"
    by (simp add: sweep_with_identity [OF ia] pending execute_vote_sv)
  then have "getPendingVotes 201 ?st' = []"
    by (simp add: getPendingVotes_def row_after_def oc error_row_def db_due_def)
  then have again: "processScheduledVotes js0 (\<lambda>key. Some gov_refuses) 201 ?st' = (?st', [])"
    by (rule sweep_nothing_due)
  from pending absent ex row casts again show ?thesis
    by simp
qed

text \<open>The claim as stated fails twice.  With the default, empty authentication key the sweep
  returns at once: the due vote of proposal 42 stays unexecuted and is due again at the
  next sweep.  And when the vote is cast but the refresh that follows raises, the row
  gets an error message although the cast succeeded.\<close>

theorem sweep_skips_or_blames_refresh:
  "getPendingVotes 5000 db42 \<noteq> [] \<and>
   processScheduledVotes js0 (\<lambda>key. Some gov_casts) 5000 db42 = (db42, []) \<and>
   getPendingVotes 5000 (fst (processScheduledVotes js0 (\<lambda>key. Some gov_casts) 5000 db42)) =
     getPendingVotes 5000 db42 \<and>
   getPendingVotes 200 db_due = [due_row] \<and>
   gov_registerVote gov_casts 7 999 1 = None \<and>
   snd (processScheduledVotes js0 (\<lambda>key. Some gov_casts) 200 db_due) = [1] \<and>
   map sv_error_message
     (scheduled_votes (fst (processScheduledVotes js0 (\<lambda>key. Some gov_casts) 200 db_due))) =
     [Some ''network error'']"
proof -
  have a: "getPendingVotes 5000 db42 \<noteq> []"
    by (simp add: getPendingVotes_def db42_def)
  have b: "processScheduledVotes js0 (\<lambda>key. Some gov_casts) 5000 db42 = (db42, [])"
    using a by (simp add: processScheduledVotes_def Let_def getConfigValue_def db42_def)
  have ia: "identity_available (\<lambda>key. Some gov_casts) db_due gov_casts 7"
    by (simp add: identity_available_def getConfigValue_def db_due_def db0_def gov_casts_def)
  have pending: "getPendingVotes 200 db_due = [due_row]"
    by (simp add: getPendingVotes_def db_due_def due_row_def)
  have oc: "cast_outcome_of js0 gov_casts 7 due_row = RefreshThrew network_error"
    by (simp add: cast_outcome_of_def js0_def due_row_def decimal_999 gov_casts_def)
  have c: "snd (processScheduledVotes js0 (\<lambda>key. Some gov_casts) 200 db_due) = [1]"
    by (simp add: sweep_with_identity [OF ia] pending execute_vote_casts js0_def due_row_def decimal_999)
  have "scheduled_votes (fst (processScheduledVotes js0 (\<lambda>key. Some gov_casts) 200 db_due)) =
      map (row_after js0 gov_casts 7 200 due_row) (scheduled_votes db_due)"
    by (simp add: sweep_with_identity [OF ia] pending execute_vote_sv)
  then have e: "map sv_error_message
     (scheduled_votes (fst (processScheduledVotes js0 (\<lambda>key. Some gov_casts) 200 db_due))) =
     [Some ''network error'']"
    by (simp add: row_after_def oc error_row_def mark_row_def db_due_def network_error_def)
  from a b pending c e show ?thesis
    by (simp add: gov_casts_def)
qed

end
